theory Spec2Isabelle
  imports Complex_Main
begin

section \<open>The authorization verifier of \<^verbatim>\<open>scripts/verify_authorization.py\<close>\<close>

text \<open>
  The script sends a fixed series of GraphQL requests to a target and appends one
  \<^verbatim>\<open>TestResult\<close> per check to \<^verbatim>\<open>self.results\<close>. The network is not part of the
  program: the target is a parameter that gives, for the n-th request sent and its
  contents, either a raised exception or a response. Every raise of the Python is a value
  \<open>Inl e\<close>, every \<^verbatim>\<open>try ... except Exception as e\<close> an explicit handler.
  The \<^verbatim>\<open>print\<close> calls and \<^verbatim>\<open>_print_results\<close> write to standard output only,
  change nothing and are left out.
\<close>

subsection \<open>Python values\<close>

text \<open>
  An exception is its class name and the text \<^verbatim>\<open>str(e)\<close> gives. Only subclasses of
  \<^verbatim>\<open>Exception\<close> are modelled (what a request, a JSON decode or an operation on the
  decoded value raises); \<^verbatim>\<open>KeyboardInterrupt\<close> and \<^verbatim>\<open>SystemExit\<close> are not.
\<close>

datatype py_exception = PyException (exc_class: string) (exc_str: string)

text \<open>
  Text that is looked at character by character (the decoded body, on which the script
  calls \<^verbatim>\<open>str\<close>, \<^verbatim>\<open>lower\<close> and \<^verbatim>\<open>in\<close>) is a list of Unicode code points, the
  integers \<^verbatim>\<open>ord\<close> gives. Names and
  messages are only put together by concatenation and stay of type \<^typ>\<open>string\<close>; so do
  the literals of the script, all ASCII, which \<open>text_of\<close> turns into code points.
\<close>

type_synonym utext = "int list"

definition ord :: "char \<Rightarrow> int" where
  "ord c = of_char c"

definition text_of :: "string \<Rightarrow> utext" where
  "text_of s = map ord s"

text \<open>
  What \<^verbatim>\<open>response.json()\<close> returns. A dict is the list of its items in insertion order
  (keys of a decoded dict are distinct; lookup takes the first). A float is kept as the
  ASCII text \<^verbatim>\<open>repr\<close> prints for it, since printing is all the script does with one.
\<close>

datatype json_value =
    JNull
  | JBool bool
  | JInt int
  | JFloat string
  | JStr utext
  | JArr "json_value list"
  | JObj "(utext \<times> json_value) list"

primrec py_type_name :: "json_value \<Rightarrow> string" where
  "py_type_name JNull = ''NoneType''"
| "py_type_name (JBool b) = ''bool''"
| "py_type_name (JInt i) = ''int''"
| "py_type_name (JFloat f) = ''float''"
| "py_type_name (JStr s) = ''str''"
| "py_type_name (JArr xs) = ''list''"
| "py_type_name (JObj kvs) = ''dict''"

subsection \<open>Strings: \<^verbatim>\<open>str\<close>, \<^verbatim>\<open>repr\<close>, \<^verbatim>\<open>lower\<close>, \<^verbatim>\<open>in\<close>\<close>

text \<open>
  Python's Unicode database is not part of the repository and is a parameter:
  \<open>isprintable c\<close> is \<^verbatim>\<open>chr(c).isprintable()\<close>, consulted by \<^verbatim>\<open>repr\<close> for the code points
  from 128 on, and \<open>lower_text s\<close> is \<^verbatim>\<open>s.lower()\<close> for a text that has such a code point
  (the Unicode case mapping, which is not character by character). On ASCII text
  neither is consulted.
\<close>

record unicode_data =
  isprintable :: "int \<Rightarrow> bool"
  lower_text :: "utext \<Rightarrow> utext"

definition digit_char :: "nat \<Rightarrow> char" where
  "digit_char d = char_of (48 + d)"

fun str_nat :: "nat \<Rightarrow> string" where
  "str_nat n = (if n < 10 then [digit_char n] else str_nat (n div 10) @ [digit_char (n mod 10)])"

declare str_nat.simps [simp del]

definition str_int :: "int \<Rightarrow> string" where
  "str_int i = (if i < 0 then CHR ''-'' # str_nat (nat (- i)) else str_nat (nat i))"

definition hex_char :: "int \<Rightarrow> char" where
  "hex_char d = (if d < 10 then char_of (48 + d) else char_of (87 + d))"

text \<open>The last two, four and eight hexadecimal digits of \<open>c\<close>, in lower case.\<close>

definition hex2 :: "int \<Rightarrow> string" where
  "hex2 c = [hex_char (c div 16 mod 16), hex_char (c mod 16)]"

definition hex4 :: "int \<Rightarrow> string" where
  "hex4 c = hex2 (c div 256) @ hex2 c"

definition hex8 :: "int \<Rightarrow> string" where
  "hex8 c = hex4 (c div 65536) @ hex4 c"

text \<open>
  \<^verbatim>\<open>repr\<close> of a string: double quotes when the text has a single quote and no double
  quote, single quotes otherwise. Backslash and the chosen quote are escaped; tab, newline
  and carriage return are written \<^verbatim>\<open>\t \n \r\<close>, the other control characters \<^verbatim>\<open>\xNN\<close>;
  the printable ASCII characters are kept; a code point from 128 on is kept when it is
  printable and otherwise written \<^verbatim>\<open>\xNN\<close>, \<^verbatim>\<open>\uNNNN\<close> or \<^verbatim>\<open>\UNNNNNNNN\<close> by its size.
\<close>

definition repr_quote :: "utext \<Rightarrow> int" where
  "repr_quote s =
     (if ord (CHR 0x27) \<in> set s \<and> ord (CHR 0x22) \<notin> set s then ord (CHR 0x22) else ord (CHR 0x27))"

definition repr_char :: "unicode_data \<Rightarrow> int \<Rightarrow> int \<Rightarrow> utext" where
  "repr_char ucd q c =
     (if c = q \<or> c = ord (CHR 0x5C) then [ord (CHR 0x5C), c]
      else if c = 9 then text_of [CHR 0x5C, CHR ''t'']
      else if c = 10 then text_of [CHR 0x5C, CHR ''n'']
      else if c = 13 then text_of [CHR 0x5C, CHR ''r'']
      else if c < 32 \<or> c = 127 then text_of ([CHR 0x5C, CHR ''x''] @ hex2 c)
      else if c < 127 then [c]
      else if isprintable ucd c then [c]
      else if c < 256 then text_of ([CHR 0x5C, CHR ''x''] @ hex2 c)
      else if c < 65536 then text_of ([CHR 0x5C, CHR ''u''] @ hex4 c)
      else text_of ([CHR 0x5C, CHR ''U''] @ hex8 c))"

definition repr_str :: "unicode_data \<Rightarrow> utext \<Rightarrow> utext" where
  "repr_str ucd s = (let q = repr_quote s in [q] @ concat (map (repr_char ucd q) s) @ [q])"

fun join :: "'a list \<Rightarrow> 'a list list \<Rightarrow> 'a list" where
  "join sep [] = []"
| "join sep [x] = x"
| "join sep (x # y # ys) = x @ sep @ join sep (y # ys)"

primrec py_repr :: "unicode_data \<Rightarrow> json_value \<Rightarrow> utext"
  and py_repr_list :: "unicode_data \<Rightarrow> json_value list \<Rightarrow> utext list"
  and py_repr_items :: "unicode_data \<Rightarrow> (utext \<times> json_value) list \<Rightarrow> utext list"
  and py_repr_item :: "unicode_data \<Rightarrow> utext \<times> json_value \<Rightarrow> utext"
where
  "py_repr ucd JNull = text_of ''None''"
| "py_repr ucd (JBool b) = (if b then text_of ''True'' else text_of ''False'')"
| "py_repr ucd (JInt i) = text_of (str_int i)"
| "py_repr ucd (JFloat f) = text_of f"
| "py_repr ucd (JStr s) = repr_str ucd s"
| "py_repr ucd (JArr xs) = text_of ''['' @ join (text_of '', '') (py_repr_list ucd xs) @ text_of '']''"
| "py_repr ucd (JObj kvs) = text_of ''{'' @ join (text_of '', '') (py_repr_items ucd kvs) @ text_of ''}''"
| "py_repr_list ucd [] = []"
| "py_repr_list ucd (x # xs) = py_repr ucd x # py_repr_list ucd xs"
| "py_repr_items ucd [] = []"
| "py_repr_items ucd (kv # kvs) = py_repr_item ucd kv # py_repr_items ucd kvs"
| "py_repr_item ucd (k, v) = repr_str ucd k @ text_of '': '' @ py_repr ucd v"

text \<open>\<^verbatim>\<open>str(x)\<close>: the text itself for a string, \<^verbatim>\<open>repr(x)\<close> for everything else.\<close>

definition py_str :: "unicode_data \<Rightarrow> json_value \<Rightarrow> utext" where
  "py_str ucd x = (case x of JStr s \<Rightarrow> s | _ \<Rightarrow> py_repr ucd x)"

text \<open>
  \<^verbatim>\<open>s.lower()\<close>: on ASCII text the letters A to Z are lowered and everything else is
  kept; on other text it is the case mapping of the Unicode database.
\<close>

definition lower_ascii :: "int \<Rightarrow> int" where
  "lower_ascii c = (if 65 \<le> c \<and> c \<le> 90 then c + 32 else c)"

definition lower :: "unicode_data \<Rightarrow> utext \<Rightarrow> utext" where
  "lower ucd s = (if list_all (\<lambda>c. c < 128) s then map lower_ascii s else lower_text ucd s)"

fun starts_with :: "'a list \<Rightarrow> 'a list \<Rightarrow> bool" where
  "starts_with s [] = True"
| "starts_with [] (p # ps) = False"
| "starts_with (c # cs) (p # ps) = (c = p \<and> starts_with cs ps)"

text \<open>\<open>str_contains s sub\<close> is \<^verbatim>\<open>sub in s\<close> for two strings.\<close>

fun str_contains :: "'a list \<Rightarrow> 'a list \<Rightarrow> bool" where
  "str_contains [] sub = (sub = [])"
| "str_contains (c # cs) sub = (starts_with (c # cs) sub \<or> str_contains cs sub)"

subsection \<open>Operations on a decoded body that can raise\<close>

text \<open>
  The key \<open>k\<close> is a literal of the script (\<^verbatim>\<open>'data'\<close>, \<^verbatim>\<open>'health'\<close>, \<^verbatim>\<open>'errors'\<close>). The
  messages are those of CPython; they quote a type name or such a key, plain words whose
  \<^verbatim>\<open>repr\<close> is the word in single quotes.
\<close>

definition type_error :: "string \<Rightarrow> py_exception + 'a" where
  "type_error msg = Inl (PyException ''TypeError'' msg)"

definition quoted :: "string \<Rightarrow> string" where
  "quoted s = [CHR 0x27] @ s @ [CHR 0x27]"

text \<open>\<^verbatim>\<open>key in data\<close>: key of a dict, element of a list, substring of a string.\<close>

fun py_in :: "string \<Rightarrow> json_value \<Rightarrow> py_exception + bool" where
  "py_in k (JObj kvs) = Inr (text_of k \<in> set (map fst kvs))"
| "py_in k (JArr xs) = Inr (JStr (text_of k) \<in> set xs)"
| "py_in k (JStr s) = Inr (str_contains s (text_of k))"
| "py_in k v = type_error (''argument of type '' @ quoted (py_type_name v) @ '' is not iterable'')"

text \<open>\<^verbatim>\<open>data[key]\<close> with a string key.\<close>

fun py_getitem :: "json_value \<Rightarrow> string \<Rightarrow> py_exception + json_value" where
  "py_getitem (JObj kvs) k =
     (case map_of kvs (text_of k) of
        Some v \<Rightarrow> Inr v
      | None \<Rightarrow> Inl (PyException ''KeyError'' (quoted k)))"
| "py_getitem (JArr xs) k = type_error ''list indices must be integers or slices, not str''"
| "py_getitem (JStr s) k = type_error (''string indices must be integers, not '' @ quoted ''str'')"
| "py_getitem v k = type_error (quoted (py_type_name v) @ '' object is not subscriptable'')"

text \<open>\<^verbatim>\<open>for x in data\<close>: the elements of a list, the keys of a dict, the characters of a string.\<close>

fun py_iter :: "json_value \<Rightarrow> py_exception + json_value list" where
  "py_iter (JArr xs) = Inr xs"
| "py_iter (JObj kvs) = Inr (map (\<lambda>kv. JStr (fst kv)) kvs)"
| "py_iter (JStr s) = Inr (map (\<lambda>c. JStr [c]) s)"
| "py_iter v = type_error (quoted (py_type_name v) @ '' object is not iterable'')"

subsection \<open>Requests, responses and the target\<close>

text \<open>
  A \<^verbatim>\<open>requests.Response\<close>: its \<^verbatim>\<open>status_code\<close> and what \<^verbatim>\<open>response.json()\<close>
  does (it raises when the body is not JSON). The script reads nothing else of it.
\<close>

record Response =
  status_code :: int
  json :: "py_exception + json_value"

text \<open>
  The arguments of \<^verbatim>\<open>requests.post(url, json=query, timeout=self.timeout)\<close>. The
  timeout is a float in the source; it is only handed on, never computed with, and is kept
  as a rational here.
\<close>

record request =
  req_url :: string
  req_json :: "(string \<times> string) list"
  req_timeout :: rat

text \<open>
  The target answers the n-th request of the run (counted from 0): it raises (connection
  refused, timeout, ...) or returns a response.
\<close>

type_synonym target = "nat \<Rightarrow> request \<Rightarrow> py_exception + Response"

datatype TestResult =
  TestResult (name: string) (passed: bool) (message: string) (response_code: "int option")

record AuthorizationVerifier =
  host :: string
  base_url :: string
  timeout :: rat
  results :: "TestResult list"

definition init :: "string \<Rightarrow> bool \<Rightarrow> rat \<Rightarrow> AuthorizationVerifier" where
  "init h use_ssl tmo =
     \<lparr>host = h,
      base_url = (if use_ssl then ''https'' else ''http'') @ ''://'' @ h,
      timeout = tmo,
      results = []\<rparr>"

subsection \<open>Statements: state, exceptions, \<^verbatim>\<open>try\<close>, \<^verbatim>\<open>for\<close>\<close>

text \<open>
  The state is the verifier object and the number of requests sent so far. A statement
  returns a value or raises, and leaves a state either way.
\<close>

type_synonym state = "AuthorizationVerifier \<times> nat"

type_synonym 'a action = "state \<Rightarrow> (py_exception + 'a) \<times> state"

definition return :: "'a \<Rightarrow> 'a action" where
  "return x s = (Inr x, s)"

definition bind :: "'a action \<Rightarrow> ('a \<Rightarrow> 'b action) \<Rightarrow> 'b action" where
  "bind m f s = (case m s of (Inl e, s') \<Rightarrow> (Inl e, s') | (Inr x, s') \<Rightarrow> f x s')"

text \<open>An expression that may raise and does not touch the state.\<close>

definition lift :: "py_exception + 'a \<Rightarrow> 'a action" where
  "lift r s = (r, s)"

definition and_then :: "py_exception + 'a \<Rightarrow> ('a \<Rightarrow> py_exception + 'b) \<Rightarrow> py_exception + 'b" where
  "and_then r f = (case r of Inl e \<Rightarrow> Inl e | Inr x \<Rightarrow> f x)"

text \<open>\<^verbatim>\<open>try: body except Exception as e: handler\<close>.\<close>

definition try_except :: "'a action \<Rightarrow> (py_exception \<Rightarrow> 'a action) \<Rightarrow> 'a action" where
  "try_except body handler s =
     (case body s of (Inl e, s') \<Rightarrow> handler e s' | (Inr x, s') \<Rightarrow> (Inr x, s'))"

text \<open>\<^verbatim>\<open>for x in xs: body\<close>, with the local variables the body updates as \<open>acc\<close>.\<close>

fun for_loop :: "'a list \<Rightarrow> ('a \<Rightarrow> 'b \<Rightarrow> 'b action) \<Rightarrow> 'b \<Rightarrow> 'b action" where
  "for_loop [] body acc = return acc"
| "for_loop (x # xs) body acc = bind (body x acc) (for_loop xs body)"

definition enumerate_list :: "'a list \<Rightarrow> (nat \<times> 'a) list" where
  "enumerate_list xs = zip [0..<length xs] xs"

definition get_self :: "AuthorizationVerifier action" where
  "get_self s = (Inr (fst s), s)"

text \<open>\<^verbatim>\<open>self.results.append(r)\<close>.\<close>

definition append_result :: "TestResult \<Rightarrow> unit action" where
  "append_result r s = (Inr (), ((fst s)\<lparr>results := results (fst s) @ [r]\<rparr>, snd s))"

definition requests_post :: "target \<Rightarrow> string \<Rightarrow> (string \<times> string) list \<Rightarrow> rat \<Rightarrow> Response action" where
  "requests_post t u q tmo s =
     (t (snd s) \<lparr>req_url = u, req_json = q, req_timeout = tmo\<rparr>, (fst s, Suc (snd s)))"

subsection \<open>The checks\<close>

definition graphql_url :: "AuthorizationVerifier \<Rightarrow> string" where
  "graphql_url self = base_url self @ ''/graphql''"

definition test_graphql_endpoint :: "target \<Rightarrow> unit action" where
  "test_graphql_endpoint t =
     try_except
       (bind get_self (\<lambda>self.
        let query = [(''query'', ''{ __schema { types { name } } }'')] in
        bind (requests_post t (graphql_url self) query (timeout self)) (\<lambda>response.
          if status_code response = 200 then
            append_result (TestResult
              ''GraphQL Endpoint Available''
              True
              ''GraphQL endpoint is responding''
              (Some (status_code response)))
          else
            append_result (TestResult
              ''GraphQL Endpoint Available''
              False
              (''GraphQL endpoint returned status '' @ str_int (status_code response))
              (Some (status_code response))))))
       (\<lambda>e.
          append_result (TestResult
            ''GraphQL Endpoint Available''
            False
            (''Failed to connect to GraphQL endpoint: '' @ exc_str e)
            None))"

definition test_health_endpoint :: "target \<Rightarrow> unit action" where
  "test_health_endpoint t =
     try_except
       (bind get_self (\<lambda>self.
        let query = [(''query'', ''{ health { status version } }'')] in
        bind (requests_post t (graphql_url self) query (timeout self)) (\<lambda>response.
          if status_code response = 200 then
            bind (lift (json response)) (\<lambda>data.
            bind (lift (and_then (py_in ''data'' data) (\<lambda>has_data.
                    if has_data then and_then (py_getitem data ''data'') (py_in ''health'')
                    else Inr False))) (\<lambda>has_health.
              if has_health then
                append_result (TestResult
                  ''Health Endpoint No Auth Required''
                  True
                  ''Health endpoint accessible without authentication''
                  (Some (status_code response)))
              else
                append_result (TestResult
                  ''Health Endpoint No Auth Required''
                  False
                  ''Health endpoint returned unexpected format''
                  (Some (status_code response)))))
          else
            append_result (TestResult
              ''Health Endpoint No Auth Required''
              False
              (''Health endpoint returned status '' @ str_int (status_code response))
              (Some (status_code response))))))
       (\<lambda>e.
          append_result (TestResult
            ''Health Endpoint No Auth Required''
            False
            (''Health endpoint test failed: '' @ exc_str e)
            None))"

definition protected_queries :: "(string \<times> string) list list" where
  \<open>protected_queries =
     [[(''query'', ''{ notes(first: 5) { edges { node { id title } } } }'')],
      [(''query'', ''{ note(id: "notes:test") { id title } }'')]]\<close>

definition mentions_auth :: "unicode_data \<Rightarrow> json_value \<Rightarrow> bool" where
  "mentions_auth ucd error =
     (str_contains (lower ucd (py_str ucd error)) (text_of ''auth'') \<or>
      str_contains (lower ucd (py_str ucd error)) (text_of ''permission''))"

definition protected_query_name :: "nat \<Rightarrow> string" where
  "protected_query_name i = ''Protected Query '' @ str_int (int i + 1) @ '' Requires Auth''"

text \<open>One turn of the loop of \<^verbatim>\<open>_test_unauthenticated_requests\<close>.\<close>

definition unauthenticated_request :: "unicode_data \<Rightarrow> target \<Rightarrow> nat \<times> (string \<times> string) list \<Rightarrow> unit action" where
  "unauthenticated_request ucd t iq =
     (let i = fst iq; query = snd iq in
      try_except
        (bind get_self (\<lambda>self.
         bind (requests_post t (graphql_url self) query (timeout self)) (\<lambda>response.
           if status_code response = 200 then
             bind (lift (json response)) (\<lambda>data.
             bind (lift (py_in ''errors'' data)) (\<lambda>has_errors.
               if has_errors then
                 bind (lift (and_then (py_getitem data ''errors'') py_iter)) (\<lambda>errors.
                   let auth_error = list_ex (mentions_auth ucd) errors in
                   if auth_error then
                     append_result (TestResult
                       (protected_query_name i)
                       True
                       ''Protected query correctly rejected without auth''
                       (Some (status_code response)))
                   else
                     append_result (TestResult
                       (protected_query_name i)
                       False
                       ''Protected query should require authentication''
                       (Some (status_code response))))
               else
                 append_result (TestResult
                   (protected_query_name i)
                   False
                   ''Protected query returned success without auth - security issue!''
                   (Some (status_code response)))))
           else
             append_result (TestResult
               (protected_query_name i)
               False
               (''Unexpected status code: '' @ str_int (status_code response))
               (Some (status_code response))))))
        (\<lambda>e.
           append_result (TestResult
             (protected_query_name i)
             False
             (''Test failed: '' @ exc_str e)
             None)))"

definition test_unauthenticated_requests :: "unicode_data \<Rightarrow> target \<Rightarrow> unit action" where
  "test_unauthenticated_requests ucd t =
     for_loop (enumerate_list protected_queries) (\<lambda>iq _. unauthenticated_request ucd t iq) ()"

definition test_demo_mode :: "target \<Rightarrow> unit action" where
  "test_demo_mode t =
     try_except
       (bind get_self (\<lambda>self.
        let query = [(''query'', ''{ health { status } }'')] in
        bind (requests_post t (graphql_url self) query (timeout self)) (\<lambda>response.
          if status_code response = 200 then
            append_result (TestResult
              ''Demo Mode Detection''
              True
              ''Demo mode test completed (check server logs for warnings)''
              (Some (status_code response)))
          else
            append_result (TestResult
              ''Demo Mode Detection''
              False
              (''Could not test demo mode: status '' @ str_int (status_code response))
              (Some (status_code response))))))
       (\<lambda>e.
          append_result (TestResult
            ''Demo Mode Detection''
            False
            (''Demo mode test failed: '' @ exc_str e)
            None))"

definition bypass_attempts :: "(string \<times> string) list list" where
  \<open>bypass_attempts =
     [[(''query'', ''{ note(id: "'' @ [CHR 0x27] @ ''; DROP TABLE notes; --") { id } }'')],
      [(''query'', ''{ note(id: "notes:test") { id ... on __Schema { types { name } } } }'')],
      [(''query'', ''{ '' @ concat (replicate 10 ''notes(first: 1000) { edges { node { '') @ ''id''
                   @ concat (replicate 10 '' } } }'') @ '' }'')]]\<close>

definition bypass_attempt_name :: "nat \<Rightarrow> string" where
  "bypass_attempt_name i = ''Bypass Attempt '' @ str_int (int i + 1) @ '' Blocked''"

text \<open>One turn of the loop of \<^verbatim>\<open>_test_authorization_bypass_attempts\<close>.\<close>

definition bypass_attempt :: "target \<Rightarrow> nat \<times> (string \<times> string) list \<Rightarrow> unit action" where
  "bypass_attempt t iq =
     (let i = fst iq; query = snd iq in
      try_except
        (bind get_self (\<lambda>self.
         bind (requests_post t (graphql_url self) query (timeout self)) (\<lambda>response.
           if status_code response = 200 then
             bind (lift (json response)) (\<lambda>data.
             bind (lift (py_in ''errors'' data)) (\<lambda>has_errors.
               if has_errors then
                 append_result (TestResult
                   (bypass_attempt_name i)
                   True
                   ''Potential bypass attempt properly rejected''
                   (Some (status_code response)))
               else
                 append_result (TestResult
                   (bypass_attempt_name i)
                   False
                   ''Potential bypass attempt was not rejected - investigate!''
                   (Some (status_code response)))))
           else
             append_result (TestResult
               (bypass_attempt_name i)
               True
               (''Bypass attempt rejected with status '' @ str_int (status_code response))
               (Some (status_code response))))))
        (\<lambda>e.
           append_result (TestResult
             (bypass_attempt_name i)
             True
             (''Bypass attempt caused error (likely blocked): '' @ exc_str e)
             None)))"

definition test_authorization_bypass_attempts :: "target \<Rightarrow> unit action" where
  "test_authorization_bypass_attempts t =
     for_loop (enumerate_list bypass_attempts) (\<lambda>iq _. bypass_attempt t iq) ()"

definition test_rate_limiting :: "target \<Rightarrow> unit action" where
  "test_rate_limiting t =
     try_except
       (bind get_self (\<lambda>self.
        let query = [(''query'', ''{ health { status } }'')] in
        bind (for_loop [0..<10]
                (\<lambda>_ responses.
                   bind (requests_post t (graphql_url self) query (timeout self)) (\<lambda>response.
                   return (responses @ [status_code response])))
                []) (\<lambda>responses.
          let rate_limited = list_ex (\<lambda>status. status = 429) responses in
          if rate_limited then
            append_result (TestResult
              ''Rate Limiting Active''
              True
              ''Rate limiting is active (some requests returned 429)''
              None)
          else
            append_result (TestResult
              ''Rate Limiting Active''
              True
              ''Rate limiting test completed (no 429s - may not be configured)''
              None))))
       (\<lambda>e.
          append_result (TestResult
            ''Rate Limiting Active''
            False
            (''Rate limiting test failed: '' @ exc_str e)
            None))"

subsection \<open>The run and the exit code\<close>

definition run_all_tests :: "unicode_data \<Rightarrow> target \<Rightarrow> bool action" where
  "run_all_tests ucd t =
     bind (test_graphql_endpoint t) (\<lambda>_.
     bind (test_health_endpoint t) (\<lambda>_.
     bind (test_unauthenticated_requests ucd t) (\<lambda>_.
     bind (test_demo_mode t) (\<lambda>_.
     bind (test_authorization_bypass_attempts t) (\<lambda>_.
     bind (test_rate_limiting t) (\<lambda>_.
     bind get_self (\<lambda>self.
       let passed_tests = sum_list (map (\<lambda>r. 1 :: int) (filter passed (results self)));
           total_tests = int (length (results self))
       in if passed_tests = total_tests then return True else return False)))))))"

text \<open>
  \<^verbatim>\<open>main\<close>, after \<^verbatim>\<open>argparse\<close> has parsed the arguments (\<^verbatim>\<open>--host\<close>, \<^verbatim>\<open>--ssl\<close>,
  \<^verbatim>\<open>--timeout\<close>): the exit status of the process.
  \<^verbatim>\<open>sys.exit(0 if success else 1)\<close>; an exception that reaches the top ends the
  interpreter with status 1.
\<close>

definition main :: "unicode_data \<Rightarrow> target \<Rightarrow> string \<Rightarrow> bool \<Rightarrow> rat \<Rightarrow> int" where
  "main ucd t args_host args_ssl args_timeout =
     (let verifier = init args_host args_ssl args_timeout in
      case run_all_tests ucd t (verifier, 0) of
        (Inr success, _) \<Rightarrow> (if success then 0 else 1)
      | (Inl e, _) \<Rightarrow> 1)"

subsection \<open>Reading a run\<close>

text \<open>The results list a statement leaves behind.\<close>

definition results_of :: "(py_exception + 'a) \<times> state \<Rightarrow> TestResult list" where
  "results_of x = results (fst (snd x))"

text \<open>The number of requests sent once a statement is done.\<close>

definition sent_of :: "(py_exception + 'a) \<times> state \<Rightarrow> nat" where
  "sent_of x = snd (snd x)"

text \<open>What a statement appends when it starts with an empty results list.\<close>

definition appended :: "'a action \<Rightarrow> AuthorizationVerifier \<Rightarrow> nat \<Rightarrow> TestResult list" where
  "appended m v n = results (fst (snd (m (v\<lparr>results := []\<rparr>, n))))"

text \<open>The request \<^verbatim>\<open>requests.post(f"{self.base_url}/graphql", json=query, timeout=self.timeout)\<close>.\<close>

definition graphql_request :: "AuthorizationVerifier \<Rightarrow> (string \<times> string) list \<Rightarrow> request" where
  "graphql_request self query =
     \<lparr>req_url = graphql_url self, req_json = query, req_timeout = timeout self\<rparr>"

text \<open>The nine checks of a run that starts at request number \<open>n\<close>, in order.\<close>

definition run_verdicts :: "unicode_data \<Rightarrow> target \<Rightarrow> AuthorizationVerifier \<Rightarrow> nat \<Rightarrow> TestResult list" where
  "run_verdicts ucd t v n =
     appended (test_graphql_endpoint t) v n
   @ appended (test_health_endpoint t) v (n + 1)
   @ appended (unauthenticated_request ucd t (0, protected_queries ! 0)) v (n + 2)
   @ appended (unauthenticated_request ucd t (1, protected_queries ! 1)) v (n + 3)
   @ appended (test_demo_mode t) v (n + 4)
   @ appended (bypass_attempt t (0, bypass_attempts ! 0)) v (n + 5)
   @ appended (bypass_attempt t (1, bypass_attempts ! 1)) v (n + 6)
   @ appended (bypass_attempt t (2, bypass_attempts ! 2)) v (n + 7)
   @ appended (test_rate_limiting t) v (n + 8)"

subsection \<open>Example targets\<close>

text \<open>
  A stand-in for the Unicode database in the examples: no code point from 128 on is
  printable, and lowering leaves text with such a code point as it is. The bodies of the
  examples are ASCII, for which the database is not consulted.
\<close>

definition example_ucd :: unicode_data where
  "example_ucd = \<lparr>isprintable = (\<lambda>c. False), lower_text = (\<lambda>s. s)\<rparr>"

text \<open>Nothing listens: every request raises.\<close>

definition unreachable_target :: target where
  "unreachable_target n req = Inl (PyException ''ConnectionError'' ''Connection refused'')"

definition not_json :: "py_exception + json_value" where
  "not_json = Inl (PyException ''JSONDecodeError'' ''Expecting value: line 1 column 1 (char 0)'')"

text \<open>A body with the health payload and an authentication error.\<close>

definition guarded_body :: json_value where
  "guarded_body =
     JObj [(text_of ''data'', JObj [(text_of ''health'', JObj [(text_of ''status'', JStr (text_of ''ok'')), (text_of ''version'', JStr (text_of ''1.0''))])]),
           (text_of ''errors'', JArr [JObj [(text_of ''message'', JStr (text_of ''Authentication required''))]])]"

text \<open>Every request is answered 200 with that body.\<close>

definition guarded_target :: target where
  "guarded_target n req = Inr \<lparr>status_code = 200, json = Inr guarded_body\<rparr>"

text \<open>Protected queries and bypass payloads are answered 401, everything else as above.\<close>

definition rejecting_target :: target where
  "rejecting_target n req =
     (if req_json req \<in> set protected_queries \<union> set bypass_attempts
      then Inr \<lparr>status_code = 401, json = not_json\<rparr>
      else Inr \<lparr>status_code = 200, json = Inr guarded_body\<rparr>)"


text \<open>Every request is answered 200 with a page that is not JSON.\<close>

definition html_target :: target where
  "html_target n req = Inr \<lparr>status_code = 200, json = not_json\<rparr>"

text \<open>The fifth rapid request of the burst (request number 12) times out.\<close>

definition flaky_target :: target where
  "flaky_target n req =
     (if n = 12 then Inl (PyException ''ReadTimeout'' ''Read timed out. (read timeout=10.0)'')
      else Inr \<lparr>status_code = 200, json = Inr guarded_body\<rparr>)"

text \<open>Every request is answered 200 with \<^verbatim>\<open>{"errors": []}\<close>.\<close>

definition empty_errors_target :: target where
  "empty_errors_target n req = Inr \<lparr>status_code = 200, json = Inr (JObj [(text_of ''errors'', JArr [])])\<rparr>"

text \<open>The demo-mode request (request number 4) is answered 503.\<close>

definition demo_down_target :: target where
  "demo_down_target n req =
     (if n = 4 then Inr \<lparr>status_code = 503, json = not_json\<rparr>
      else Inr \<lparr>status_code = 200, json = Inr guarded_body\<rparr>)"

text \<open>The third rapid request of the burst (request number 10) is answered 429.\<close>

definition throttling_target :: target where
  "throttling_target n req =
     (if n = 10 then Inr \<lparr>status_code = 429, json = not_json\<rparr>
      else Inr \<lparr>status_code = 200, json = Inr guarded_body\<rparr>)"

section \<open>Properties\<close>

subsection \<open>Substrings\<close>

lemma starts_with_iff: "starts_with s p = (\<exists>suf. s = p @ suf)"
  by (induction s p rule: starts_with.induct) auto

lemma str_contains_iff: "str_contains s sub = (\<exists>pre suf. s = pre @ sub @ suf)"
proof (induction s)
  case Nil
  show ?case by auto
next
  case (Cons c cs)
  show ?case
  proof
    assume "str_contains (c # cs) sub"
    then consider "starts_with (c # cs) sub" | "str_contains cs sub" by auto
    then show "\<exists>pre suf. c # cs = pre @ sub @ suf"
    proof cases
      case 1
      then obtain suf where "c # cs = sub @ suf" by (auto simp: starts_with_iff)
      then have "c # cs = [] @ sub @ suf" by simp
      then show ?thesis by blast
    next
      case 2
      then obtain pre suf where "cs = pre @ sub @ suf" using Cons.IH by blast
      then have "c # cs = (c # pre) @ sub @ suf" by simp
      then show ?thesis by blast
    qed
  next
    assume "\<exists>pre suf. c # cs = pre @ sub @ suf"
    then obtain pre suf where e: "c # cs = pre @ sub @ suf" by blast
    show "str_contains (c # cs) sub"
    proof (cases pre)
      case Nil
      with e have "starts_with (c # cs) sub" by (auto simp: starts_with_iff)
      then show ?thesis by simp
    next
      case (Cons a pre')
      with e have "cs = pre' @ sub @ suf" by simp
      then have "str_contains cs sub" using Cons.IH by blast
      then show ?thesis by simp
    qed
  qed
qed

lemma text_of_eq_iff [simp]: "(text_of a = text_of b) = (a = b)"
proof -
  have "inj ord" by (simp add: inj_on_def ord_def)
  then show ?thesis by (simp add: text_of_def inj_map_eq_map)
qed

subsection \<open>\<^verbatim>\<open>repr\<close> escapes what is not printable\<close>

text \<open>
  U+200A (hair space) is not printable: \<^verbatim>\<open>repr\<close> writes it \<^verbatim>\<open>\u200a\<close>, and the text of
  the error \<^verbatim>\<open>{"message": "Denied for\u200aUther"}\<close>, lowered, then has \<^verbatim>\<open>auth\<close> in it.
\<close>

lemma repr_char_unprintable:
  assumes "\<not> isprintable ucd 0x200A"
  shows "repr_char ucd (repr_quote s) 0x200A = text_of ([CHR 0x5C] @ ''u200a'')"
proof -
  have h: "hex4 0x200A = ''200a''"
    by code_simp
  have q: "repr_quote s = 34 \<or> repr_quote s = 39"
    by (simp add: repr_quote_def ord_def)
  then show ?thesis
    using assms by (auto simp add: repr_char_def h ord_def)
qed

lemma escaped_text_mentions_auth:
  "mentions_auth example_ucd
     (JObj [(text_of ''message'', JStr (text_of ''Denied for'' @ [0x200A] @ text_of ''Uther''))])"
  by code_simp

subsection \<open>Each check appends one result and catches what it raises\<close>

lemmas action_defs = return_def bind_def lift_def try_except_def get_self_def
  append_result_def requests_post_def

lemma graphql_url_results_update [simp]:
  "graphql_url (v\<lparr>results := rs\<rparr>) = graphql_url v"
  by (simp add: graphql_url_def)

lemma appended_results_update [simp]:
  "appended m (v\<lparr>results := rs\<rparr>) n = appended m v n"
  by (simp add: appended_def)

lemma graphql_step:
  "test_graphql_endpoint t (v, n) =
     (Inr (), (v\<lparr>results := results v @ appended (test_graphql_endpoint t) v n\<rparr>, Suc n))
   \<and> length (appended (test_graphql_endpoint t) v n) = 1"
  by (simp add: test_graphql_endpoint_def appended_def action_defs Let_def split: sum.splits)

lemma health_step:
  "test_health_endpoint t (v, n) =
     (Inr (), (v\<lparr>results := results v @ appended (test_health_endpoint t) v n\<rparr>, Suc n))
   \<and> length (appended (test_health_endpoint t) v n) = 1"
  by (simp add: test_health_endpoint_def appended_def action_defs Let_def split: sum.splits)

lemma unauthenticated_step:
  "unauthenticated_request ucd t iq (v, n) =
     (Inr (), (v\<lparr>results := results v @ appended (unauthenticated_request ucd t iq) v n\<rparr>, Suc n))
   \<and> length (appended (unauthenticated_request ucd t iq) v n) = 1"
  by (simp add: unauthenticated_request_def appended_def action_defs Let_def split: sum.splits)

lemma demo_step:
  "test_demo_mode t (v, n) =
     (Inr (), (v\<lparr>results := results v @ appended (test_demo_mode t) v n\<rparr>, Suc n))
   \<and> length (appended (test_demo_mode t) v n) = 1"
  by (simp add: test_demo_mode_def appended_def action_defs Let_def split: sum.splits)

lemma bypass_step:
  "bypass_attempt t iq (v, n) =
     (Inr (), (v\<lparr>results := results v @ appended (bypass_attempt t iq) v n\<rparr>, Suc n))
   \<and> length (appended (bypass_attempt t iq) v n) = 1"
  by (simp add: bypass_attempt_def appended_def action_defs Let_def split: sum.splits)

text \<open>The burst leaves the verifier as it was, whatever the requests do.\<close>

lemma for_loop_requests:
  "\<exists>r n'. \<forall>v. for_loop xs (\<lambda>_ responses. bind (requests_post t u q tmo) (\<lambda>response.
             return (responses @ [status_code response]))) acc (v, n) = (r, (v, n'))"
proof (induction xs arbitrary: acc n)
  case Nil
  show ?case by (simp add: return_def)
next
  case (Cons x xs)
  show ?case
  proof (cases "t n \<lparr>req_url = u, req_json = q, req_timeout = tmo\<rparr>")
    case (Inl e)
    then show ?thesis by (simp add: action_defs)
  next
    case (Inr response)
    then show ?thesis using Cons.IH [of "acc @ [status_code response]" "Suc n"]
      by (simp add: action_defs)
  qed
qed

lemma rate_step:
  "\<exists>n'. test_rate_limiting t (v, n) =
     (Inr (), (v\<lparr>results := results v @ appended (test_rate_limiting t) v n\<rparr>, n'))
   \<and> length (appended (test_rate_limiting t) v n) = 1"
proof -
  obtain r n' where a: "\<And>w. for_loop [0..<10] (\<lambda>_ responses.
        bind (requests_post t (graphql_url v) [(''query'', ''{ health { status } }'')] (timeout v))
          (\<lambda>response. return (responses @ [status_code response]))) [] (w, n) = (r, (w, n'))"
    using for_loop_requests by blast
  show ?thesis
    by (cases r)
       (simp_all add: test_rate_limiting_def appended_def action_defs Let_def a)
qed

lemma unauthenticated_loop:
  "test_unauthenticated_requests ucd t (v, n) =
     (Inr (), (v\<lparr>results := results v
         @ appended (unauthenticated_request ucd t (0, protected_queries ! 0)) v n
         @ appended (unauthenticated_request ucd t (1, protected_queries ! 1)) v (Suc n)\<rparr>,
       Suc (Suc n)))"
  by (simp add: test_unauthenticated_requests_def enumerate_list_def protected_queries_def
      bind_def return_def unauthenticated_step)

lemma bypass_loop:
  "test_authorization_bypass_attempts t (v, n) =
     (Inr (), (v\<lparr>results := results v
         @ appended (bypass_attempt t (0, bypass_attempts ! 0)) v n
         @ appended (bypass_attempt t (1, bypass_attempts ! 1)) v (Suc n)
         @ appended (bypass_attempt t (2, bypass_attempts ! 2)) v (Suc (Suc n))\<rparr>,
       Suc (Suc (Suc n))))"
proof -
  have e: "enumerate_list bypass_attempts =
      [(0, bypass_attempts ! 0), (1, bypass_attempts ! 1), (2, bypass_attempts ! 2)]"
    by (simp add: enumerate_list_def bypass_attempts_def)
  show ?thesis
    by (simp add: test_authorization_bypass_attempts_def e bind_def return_def bypass_step)
qed

subsection \<open>The run as the sequence of its nine checks\<close>

lemma passed_count:
  "sum_list (map (\<lambda>r. 1 :: int) (filter passed rs)) = int (length (filter passed rs))"
  by (induction rs) simp_all

lemma all_passed_count:
  "(sum_list (map (\<lambda>r. 1 :: int) (filter passed rs)) = int (length rs)) = list_all passed rs"
proof -
  have "(length (filter passed rs) = length rs) = list_all passed rs"
    by (induction rs) (simp_all add: le_imp_less_Suc [THEN less_imp_neq])
  then show ?thesis by (simp add: passed_count)
qed

lemma run_all_tests_steps:
  "\<exists>n'. run_all_tests ucd t (v, n) =
     (Inr (list_all passed (results v @ run_verdicts ucd t v n)),
      (v\<lparr>results := results v @ run_verdicts ucd t v n\<rparr>, n'))"
proof -
  let ?rs = "results v
         @ appended (test_graphql_endpoint t) v n
         @ appended (test_health_endpoint t) v (Suc n)
         @ appended (unauthenticated_request ucd t (0, protected_queries ! 0)) v (Suc (Suc n))
         @ appended (unauthenticated_request ucd t (1, protected_queries ! 1)) v (Suc (Suc (Suc n)))
         @ appended (test_demo_mode t) v (Suc (Suc (Suc (Suc n))))
         @ appended (bypass_attempt t (0, bypass_attempts ! 0)) v (Suc (Suc (Suc (Suc (Suc n)))))
         @ appended (bypass_attempt t (1, bypass_attempts ! 1)) v
             (Suc (Suc (Suc (Suc (Suc (Suc n))))))
         @ appended (bypass_attempt t (2, bypass_attempts ! 2)) v
             (Suc (Suc (Suc (Suc (Suc (Suc (Suc n)))))))"
  let ?n8 = "Suc (Suc (Suc (Suc (Suc (Suc (Suc (Suc n)))))))"
  obtain n' where r: "test_rate_limiting t (v\<lparr>results := ?rs\<rparr>, ?n8) =
       (Inr (), (v\<lparr>results := ?rs @ appended (test_rate_limiting t) v ?n8\<rparr>, n'))"
    using rate_step [of t "v\<lparr>results := ?rs\<rparr>" ?n8] by auto
  have numerals: "n + 1 = Suc n" "n + 2 = Suc (Suc n)" "n + 3 = Suc (Suc (Suc n))"
    "n + 4 = Suc (Suc (Suc (Suc n)))" "n + 5 = Suc (Suc (Suc (Suc (Suc n))))"
    "n + 6 = Suc (Suc (Suc (Suc (Suc (Suc n)))))"
    "n + 7 = Suc (Suc (Suc (Suc (Suc (Suc (Suc n))))))" "n + 8 = ?n8"
    by simp_all
  have "run_all_tests ucd t (v, n) =
     (Inr (list_all passed (?rs @ appended (test_rate_limiting t) v ?n8)),
      (v\<lparr>results := ?rs @ appended (test_rate_limiting t) v ?n8\<rparr>, n'))"
    using r
    by (simp add: run_all_tests_def bind_def [of "test_graphql_endpoint t"]
          bind_def [of "test_health_endpoint t"] bind_def [of "test_unauthenticated_requests ucd t"]
          bind_def [of "test_demo_mode t"] bind_def [of "test_authorization_bypass_attempts t"]
          bind_def [of "test_rate_limiting t"] bind_def [of get_self]
          graphql_step health_step unauthenticated_loop demo_step bypass_loop
          get_self_def return_def Let_def all_passed_count)
  then show ?thesis
    unfolding run_verdicts_def numerals by simp
qed

lemma run_results: "results_of (run_all_tests ucd t (v, n)) = results v @ run_verdicts ucd t v n"
  using run_all_tests_steps [of ucd t v n] by (auto simp: results_of_def)

lemma run_returns: "fst (run_all_tests ucd t (v, n)) = Inr (list_all passed (results v @ run_verdicts ucd t v n))"
  using run_all_tests_steps [of ucd t v n] by auto

lemma main_exit:
  "main ucd t h ssl tmo = (if list_all passed (run_verdicts ucd t (init h ssl tmo) 0) then 0 else 1)"
proof -
  obtain n' where "run_all_tests ucd t (init h ssl tmo, 0) =
     (Inr (list_all passed (results (init h ssl tmo) @ run_verdicts ucd t (init h ssl tmo) 0)),
      ((init h ssl tmo)\<lparr>results := results (init h ssl tmo) @ run_verdicts ucd t (init h ssl tmo) 0\<rparr>, n'))"
    using run_all_tests_steps by blast
  moreover have "results (init h ssl tmo) = []" by (simp add: init_def)
  ultimately show ?thesis by (simp add: main_def)
qed

subsection \<open>The names of the nine results\<close>

lemma protected_query_names:
  "protected_query_name 0 = ''Protected Query 1 Requires Auth''"
  "protected_query_name 1 = ''Protected Query 2 Requires Auth''"
  by code_simp+

lemma bypass_attempt_names:
  "bypass_attempt_name 0 = ''Bypass Attempt 1 Blocked''"
  "bypass_attempt_name 1 = ''Bypass Attempt 2 Blocked''"
  "bypass_attempt_name 2 = ''Bypass Attempt 3 Blocked''"
  by code_simp+

lemma check_names_Suc:
  "protected_query_name (Suc 0) = ''Protected Query 2 Requires Auth''"
  "bypass_attempt_name (Suc 0) = ''Bypass Attempt 2 Blocked''"
  using protected_query_names(2) bypass_attempt_names(2) by simp_all

lemma graphql_name: "map name (appended (test_graphql_endpoint t) v n) = [''GraphQL Endpoint Available'']"
  by (simp add: test_graphql_endpoint_def appended_def action_defs Let_def split: sum.splits)

lemma health_name: "map name (appended (test_health_endpoint t) v n) = [''Health Endpoint No Auth Required'']"
  by (simp add: test_health_endpoint_def appended_def action_defs Let_def split: sum.splits)

lemma unauthenticated_name: "map name (appended (unauthenticated_request ucd t (i, q)) v n) = [protected_query_name i]"
  by (simp add: unauthenticated_request_def appended_def action_defs Let_def split: sum.splits)

lemma demo_name: "map name (appended (test_demo_mode t) v n) = [''Demo Mode Detection'']"
  by (simp add: test_demo_mode_def appended_def action_defs Let_def split: sum.splits)

lemma bypass_name: "map name (appended (bypass_attempt t (i, q)) v n) = [bypass_attempt_name i]"
  by (simp add: bypass_attempt_def appended_def action_defs Let_def split: sum.splits)

lemma rate_name: "map name (appended (test_rate_limiting t) v n) = [''Rate Limiting Active'']"
proof -
  obtain r n' where a: "\<And>w. for_loop [0..<10] (\<lambda>_ responses.
        bind (requests_post t (graphql_url v) [(''query'', ''{ health { status } }'')] (timeout v))
          (\<lambda>response. return (responses @ [status_code response]))) [] (w, n) = (r, (w, n'))"
    using for_loop_requests by blast
  show ?thesis
    by (cases r) (simp_all add: test_rate_limiting_def appended_def action_defs Let_def a)
qed

lemma run_verdicts_names:
  "map name (run_verdicts ucd t v n) =
     [''GraphQL Endpoint Available'', ''Health Endpoint No Auth Required'',
      ''Protected Query 1 Requires Auth'', ''Protected Query 2 Requires Auth'',
      ''Demo Mode Detection'',
      ''Bypass Attempt 1 Blocked'', ''Bypass Attempt 2 Blocked'', ''Bypass Attempt 3 Blocked'',
      ''Rate Limiting Active'']"
  by (simp add: run_verdicts_def graphql_name health_name unauthenticated_name demo_name
      bypass_name rate_name protected_query_names bypass_attempt_names check_names_Suc)

subsection \<open>The result of each check, by the outcome of its request\<close>

lemma graphql_verdict:
  "appended (test_graphql_endpoint t) v n =
     [case t n (graphql_request v [(''query'', ''{ __schema { types { name } } }'')]) of
        Inl e \<Rightarrow> TestResult ''GraphQL Endpoint Available'' False
                  (''Failed to connect to GraphQL endpoint: '' @ exc_str e) None
      | Inr response \<Rightarrow>
          if status_code response = 200
          then TestResult ''GraphQL Endpoint Available'' True ''GraphQL endpoint is responding''
                 (Some (status_code response))
          else TestResult ''GraphQL Endpoint Available'' False
                 (''GraphQL endpoint returned status '' @ str_int (status_code response))
                 (Some (status_code response))]"
  by (simp add: test_graphql_endpoint_def appended_def action_defs graphql_request_def Let_def
      split: sum.splits)

lemma health_verdict:
  "appended (test_health_endpoint t) v n =
     [case t n (graphql_request v [(''query'', ''{ health { status version } }'')]) of
        Inl e \<Rightarrow> TestResult ''Health Endpoint No Auth Required'' False
                  (''Health endpoint test failed: '' @ exc_str e) None
      | Inr response \<Rightarrow>
          if status_code response = 200
          then (case and_then (json response) (\<lambda>data. and_then (py_in ''data'' data) (\<lambda>has_data.
                       if has_data then and_then (py_getitem data ''data'') (py_in ''health'')
                       else Inr False)) of
                  Inl e \<Rightarrow> TestResult ''Health Endpoint No Auth Required'' False
                            (''Health endpoint test failed: '' @ exc_str e) None
                | Inr has_health \<Rightarrow>
                    if has_health
                    then TestResult ''Health Endpoint No Auth Required'' True
                           ''Health endpoint accessible without authentication''
                           (Some (status_code response))
                    else TestResult ''Health Endpoint No Auth Required'' False
                           ''Health endpoint returned unexpected format''
                           (Some (status_code response)))
          else TestResult ''Health Endpoint No Auth Required'' False
                 (''Health endpoint returned status '' @ str_int (status_code response))
                 (Some (status_code response))]"
  by (simp add: test_health_endpoint_def appended_def action_defs graphql_request_def Let_def
      and_then_def split: sum.splits)

lemma unauthenticated_verdict:
  "appended (unauthenticated_request ucd t (i, q)) v n =
     [case t n (graphql_request v q) of
        Inl e \<Rightarrow> TestResult (protected_query_name i) False (''Test failed: '' @ exc_str e) None
      | Inr response \<Rightarrow>
          if status_code response = 200
          then (case and_then (json response) (\<lambda>data. and_then (py_in ''errors'' data) (\<lambda>has_errors.
                       if has_errors
                       then and_then (and_then (py_getitem data ''errors'') py_iter)
                              (\<lambda>errors. Inr (Some (list_ex (mentions_auth ucd) errors)))
                       else Inr None)) of
                  Inl e \<Rightarrow> TestResult (protected_query_name i) False
                            (''Test failed: '' @ exc_str e) None
                | Inr None \<Rightarrow>
                    TestResult (protected_query_name i) False
                      ''Protected query returned success without auth - security issue!''
                      (Some (status_code response))
                | Inr (Some auth_error) \<Rightarrow>
                    if auth_error
                    then TestResult (protected_query_name i) True
                           ''Protected query correctly rejected without auth''
                           (Some (status_code response))
                    else TestResult (protected_query_name i) False
                           ''Protected query should require authentication''
                           (Some (status_code response)))
          else TestResult (protected_query_name i) False
                 (''Unexpected status code: '' @ str_int (status_code response))
                 (Some (status_code response))]"
  by (simp add: unauthenticated_request_def appended_def action_defs graphql_request_def Let_def
      and_then_def split: sum.splits)

lemma demo_verdict:
  "appended (test_demo_mode t) v n =
     [case t n (graphql_request v [(''query'', ''{ health { status } }'')]) of
        Inl e \<Rightarrow> TestResult ''Demo Mode Detection'' False
                  (''Demo mode test failed: '' @ exc_str e) None
      | Inr response \<Rightarrow>
          if status_code response = 200
          then TestResult ''Demo Mode Detection'' True
                 ''Demo mode test completed (check server logs for warnings)''
                 (Some (status_code response))
          else TestResult ''Demo Mode Detection'' False
                 (''Could not test demo mode: status '' @ str_int (status_code response))
                 (Some (status_code response))]"
  by (simp add: test_demo_mode_def appended_def action_defs graphql_request_def Let_def
      split: sum.splits)

lemma bypass_verdict:
  "appended (bypass_attempt t (i, q)) v n =
     [case t n (graphql_request v q) of
        Inl e \<Rightarrow> TestResult (bypass_attempt_name i) True
                  (''Bypass attempt caused error (likely blocked): '' @ exc_str e) None
      | Inr response \<Rightarrow>
          if status_code response = 200
          then (case and_then (json response) (py_in ''errors'') of
                  Inl e \<Rightarrow> TestResult (bypass_attempt_name i) True
                            (''Bypass attempt caused error (likely blocked): '' @ exc_str e) None
                | Inr has_errors \<Rightarrow>
                    if has_errors
                    then TestResult (bypass_attempt_name i) True
                           ''Potential bypass attempt properly rejected''
                           (Some (status_code response))
                    else TestResult (bypass_attempt_name i) False
                           ''Potential bypass attempt was not rejected - investigate!''
                           (Some (status_code response)))
          else TestResult (bypass_attempt_name i) True
                 (''Bypass attempt rejected with status '' @ str_int (status_code response))
                 (Some (status_code response))]"
  by (simp add: bypass_attempt_def appended_def action_defs graphql_request_def Let_def
      and_then_def split: sum.splits)


subsection \<open>The burst of the rate-limit check\<close>

lemma burst_answered:
  "\<forall>k<length xs. \<exists>r. t (n + k) \<lparr>req_url = u, req_json = q, req_timeout = tmo\<rparr> = Inr r \<Longrightarrow>
   for_loop xs (\<lambda>_ responses. bind (requests_post t u q tmo) (\<lambda>response.
             return (responses @ [status_code response]))) acc (v, n) =
     (Inr (acc @ map (\<lambda>k. status_code (projr (t (n + k) \<lparr>req_url = u, req_json = q, req_timeout = tmo\<rparr>)))
                  [0..<length xs]),
      (v, n + length xs))"
proof (induction xs arbitrary: acc n)
  case Nil
  show ?case by (simp add: return_def)
next
  case (Cons x xs)
  from Cons.prems obtain r where r: "t n \<lparr>req_url = u, req_json = q, req_timeout = tmo\<rparr> = Inr r"
    by fastforce
  have "\<forall>k<length xs. \<exists>r. t (Suc n + k) \<lparr>req_url = u, req_json = q, req_timeout = tmo\<rparr> = Inr r"
    using Cons.prems by fastforce
  from Cons.IH [OF this, of "acc @ [status_code r]"] r show ?case
    by (simp add: action_defs upt_conv_Cons map_Suc_upt [symmetric] o_def del: upt_Suc)
qed

lemma burst_raises:
  "k < length xs \<Longrightarrow>
   \<forall>j<k. \<exists>r. t (n + j) \<lparr>req_url = u, req_json = q, req_timeout = tmo\<rparr> = Inr r \<Longrightarrow>
   t (n + k) \<lparr>req_url = u, req_json = q, req_timeout = tmo\<rparr> = Inl e \<Longrightarrow>
   for_loop xs (\<lambda>_ responses. bind (requests_post t u q tmo) (\<lambda>response.
             return (responses @ [status_code response]))) acc (v, n) = (Inl e, (v, Suc (n + k)))"
proof (induction xs arbitrary: acc n k)
  case Nil
  then show ?case by simp
next
  case (Cons x xs)
  show ?case
  proof (cases k)
    case 0
    with Cons.prems show ?thesis by (simp add: action_defs)
  next
    case (Suc k')
    from Cons.prems Suc obtain r where r: "t n \<lparr>req_url = u, req_json = q, req_timeout = tmo\<rparr> = Inr r"
      by fastforce
    have a: "k' < length xs" using Cons.prems Suc by simp
    have b: "\<forall>j<k'. \<exists>r. t (Suc n + j) \<lparr>req_url = u, req_json = q, req_timeout = tmo\<rparr> = Inr r"
      using Cons.prems(2) Suc by fastforce
    have c: "t (Suc n + k') \<lparr>req_url = u, req_json = q, req_timeout = tmo\<rparr> = Inl e"
      using Cons.prems(3) Suc by simp
    from Cons.IH [OF a b c, of "acc @ [status_code r]"] r Suc show ?thesis
      by (simp add: action_defs)
  qed
qed

lemma rate_verdict_answered:
  assumes "\<forall>k<10. \<exists>r. t (n + k) (graphql_request v [(''query'', ''{ health { status } }'')]) = Inr r"
  shows "appended (test_rate_limiting t) v n =
     [TestResult ''Rate Limiting Active'' True
        (if \<exists>k<10. status_code (projr (t (n + k)
               (graphql_request v [(''query'', ''{ health { status } }'')]))) = 429
         then ''Rate limiting is active (some requests returned 429)''
         else ''Rate limiting test completed (no 429s - may not be configured)'')
        None]"
proof -
  have "\<forall>k<length [0..<10::nat]. \<exists>r. t (n + k) \<lparr>req_url = graphql_url v,
       req_json = [(''query'', ''{ health { status } }'')], req_timeout = timeout v\<rparr> = Inr r"
    using assms by (simp add: graphql_request_def)
  from burst_answered [of "[0..<10]" t n "graphql_url v" "[(''query'', ''{ health { status } }'')]"
      "timeout v" "[]", OF this]
  show ?thesis
    by (auto simp add: test_rate_limiting_def appended_def action_defs graphql_request_def Let_def
        list_ex_iff simp del: upt_Suc)
qed

lemma rate_verdict_raises:
  assumes "k < 10"
    and "\<forall>j<k. \<exists>r. t (n + j) (graphql_request v [(''query'', ''{ health { status } }'')]) = Inr r"
    and "t (n + k) (graphql_request v [(''query'', ''{ health { status } }'')]) = Inl e"
  shows "appended (test_rate_limiting t) v n =
     [TestResult ''Rate Limiting Active'' False (''Rate limiting test failed: '' @ exc_str e) None]"
proof -
  have "k < length [0..<10::nat]" using assms(1) by simp
  from burst_raises [OF this, of t n "graphql_url v" "[(''query'', ''{ health { status } }'')]" "timeout v" e "[]"]
    assms(2,3)
  show ?thesis
    by (simp add: test_rate_limiting_def appended_def action_defs graphql_request_def Let_def
        del: upt_Suc)
qed

subsection \<open>Facts about the run used below\<close>

lemma errors_key_present: "map_of kvs k = Some x \<Longrightarrow> k \<in> fst ` set kvs"
  by (metis domI dom_map_of_conv_image_fst)

lemma run_verdicts_demo:
  "run_verdicts ucd t v n ! 4 = hd (appended (test_demo_mode t) v (n + 4))"
  by (simp add: run_verdicts_def graphql_verdict health_verdict unauthenticated_verdict
      demo_verdict)

lemma failed_verdict_fails_run:
  "k < length (run_verdicts ucd t v n) \<Longrightarrow> \<not> passed (run_verdicts ucd t v n ! k) \<Longrightarrow>
   \<not> list_all passed (run_verdicts ucd t v n)"
  by (auto simp: list_all_iff)

lemma run_verdicts_length: "length (run_verdicts ucd t v n) = 9"
proof -
  have "length (map name (run_verdicts ucd t v n)) = 9"
    by (simp only: run_verdicts_names) simp
  then show ?thesis by simp
qed

lemma protected_queries_mem:
  "protected_queries ! 0 \<in> set protected_queries" "protected_queries ! 1 \<in> set protected_queries"
  by (simp_all add: protected_queries_def)

lemma bypass_attempts_mem:
  "bypass_attempts ! 0 \<in> set bypass_attempts" "bypass_attempts ! 1 \<in> set bypass_attempts"
  "bypass_attempts ! 2 \<in> set bypass_attempts"
  by (simp_all add: bypass_attempts_def)

lemma str_int_401: "str_int 401 = ''401''"
  by code_simp

lemma run_verdicts_from_0:
  "run_verdicts ucd t v 0 =
     appended (test_graphql_endpoint t) v 0
   @ appended (test_health_endpoint t) v 1
   @ appended (unauthenticated_request ucd t (0, protected_queries ! 0)) v 2
   @ appended (unauthenticated_request ucd t (1, protected_queries ! 1)) v 3
   @ appended (test_demo_mode t) v 4
   @ appended (bypass_attempt t (0, bypass_attempts ! 0)) v 5
   @ appended (bypass_attempt t (1, bypass_attempts ! 1)) v 6
   @ appended (bypass_attempt t (2, bypass_attempts ! 2)) v 7
   @ appended (test_rate_limiting t) v 8"
  by (simp only: run_verdicts_def add_0)

subsection \<open>The \<^verbatim>\<open>errors\<close> entry of a body\<close>



subsection \<open>The requests a run sends\<close>

lemma for_loop_requests_bounds:
  "\<exists>r n'. (\<forall>v. for_loop xs (\<lambda>_ responses. bind (requests_post t u q tmo) (\<lambda>response.
             return (responses @ [status_code response]))) acc (v, n) = (r, (v, n'))) \<and>
           n' \<le> n + length xs \<and> (xs \<noteq> [] \<longrightarrow> n < n')"
proof -
  define body :: "'a \<Rightarrow> int list \<Rightarrow> int list action"
    where "body = (\<lambda>_ responses. bind (requests_post t u q tmo) (\<lambda>response.
             return (responses @ [status_code response])))"
  have raises: "body x acc (v, n) = (Inl e, (v, Suc n))"
    if "t n \<lparr>req_url = u, req_json = q, req_timeout = tmo\<rparr> = Inl e" for x acc v n e
    using that by (simp add: body_def action_defs)
  have answers: "body x acc (v, n) = (Inr (acc @ [status_code r]), (v, Suc n))"
    if "t n \<lparr>req_url = u, req_json = q, req_timeout = tmo\<rparr> = Inr r" for x acc v n r
    using that by (simp add: body_def action_defs)
  have "\<exists>r n'. (\<forall>v. for_loop xs body acc (v, n) = (r, (v, n'))) \<and>
           n' \<le> n + length xs \<and> (xs \<noteq> [] \<longrightarrow> n < n')"
  proof (induction xs arbitrary: acc n)
    case Nil
    show ?case by (simp add: return_def)
  next
    case (Cons x xs)
    show ?case
    proof (cases "t n \<lparr>req_url = u, req_json = q, req_timeout = tmo\<rparr>")
      case (Inl e)
      then show ?thesis by (simp add: bind_def raises)
    next
      case (Inr response)
      obtain r n' where i: "\<forall>v. for_loop xs body (acc @ [status_code response]) (v, Suc n) = (r, (v, n'))"
        "n' \<le> Suc n + length xs" "xs \<noteq> [] \<longrightarrow> Suc n < n'"
        using Cons.IH [of "acc @ [status_code response]" "Suc n"] by blast
      have "Suc n \<le> n'"
      proof (cases xs)
        case Nil
        with i(1) show ?thesis by (simp add: return_def)
      next
        case (Cons a list)
        with i(3) show ?thesis by simp
      qed
      with i Inr show ?thesis
        by (intro exI [of _ r] exI [of _ n']) (simp add: bind_def answers)
    qed
  qed
  then show ?thesis by (simp only: body_def)
qed

lemma rate_sent:
  "n < sent_of (test_rate_limiting t (v, n)) \<and> sent_of (test_rate_limiting t (v, n)) \<le> n + 10"
proof -
  obtain r n' where a: "\<And>w. for_loop [0..<10] (\<lambda>_ responses.
        bind (requests_post t (graphql_url v) [(''query'', ''{ health { status } }'')] (timeout v))
          (\<lambda>response. return (responses @ [status_code response]))) [] (w, n) = (r, (w, n'))"
    and b: "n' \<le> n + length [0..<10::nat]" "[0..<10::nat] \<noteq> [] \<longrightarrow> n < n'"
    using for_loop_requests_bounds [of "[0..<10]" t "graphql_url v" "[(''query'', ''{ health { status } }'')]"
        "timeout v" "[]" n] by blast
  from b have "n < n'" "n' \<le> n + 10" by simp_all
  then show ?thesis
    by (cases r) (simp_all add: sent_of_def test_rate_limiting_def action_defs Let_def a)
qed

lemma rate_sent_results_update [simp]:
  "sent_of (test_rate_limiting t (v\<lparr>results := rs\<rparr>, n)) = sent_of (test_rate_limiting t (v, n))"
proof -
  obtain r n' where a: "\<And>w. for_loop [0..<10] (\<lambda>_ responses.
        bind (requests_post t (graphql_url v) [(''query'', ''{ health { status } }'')] (timeout v))
          (\<lambda>response. return (responses @ [status_code response]))) [] (w, n) = (r, (w, n'))"
    using for_loop_requests by blast
  show ?thesis
    by (cases r) (simp_all add: sent_of_def test_rate_limiting_def action_defs Let_def a)
qed

lemma rate_step_sent:
  "test_rate_limiting t (v, n) =
     (Inr (), (v\<lparr>results := results v @ appended (test_rate_limiting t) v n\<rparr>,
               sent_of (test_rate_limiting t (v, n))))"
  using rate_step [of t v n] by (auto simp: sent_of_def)

lemma run_all_tests_state:
  "run_all_tests ucd t (v, n) =
     (Inr (list_all passed (results v @ run_verdicts ucd t v n)),
      (v\<lparr>results := results v @ run_verdicts ucd t v n\<rparr>,
       sent_of (test_rate_limiting t (v, n + 8))))"
proof -
  let ?rs = "results v
         @ appended (test_graphql_endpoint t) v n
         @ appended (test_health_endpoint t) v (Suc n)
         @ appended (unauthenticated_request ucd t (0, protected_queries ! 0)) v (Suc (Suc n))
         @ appended (unauthenticated_request ucd t (1, protected_queries ! 1)) v (Suc (Suc (Suc n)))
         @ appended (test_demo_mode t) v (Suc (Suc (Suc (Suc n))))
         @ appended (bypass_attempt t (0, bypass_attempts ! 0)) v (Suc (Suc (Suc (Suc (Suc n)))))
         @ appended (bypass_attempt t (1, bypass_attempts ! 1)) v
             (Suc (Suc (Suc (Suc (Suc (Suc n))))))
         @ appended (bypass_attempt t (2, bypass_attempts ! 2)) v
             (Suc (Suc (Suc (Suc (Suc (Suc (Suc n)))))))"
  let ?n8 = "Suc (Suc (Suc (Suc (Suc (Suc (Suc (Suc n)))))))"
  have r: "test_rate_limiting t (v\<lparr>results := ?rs\<rparr>, ?n8) =
       (Inr (), (v\<lparr>results := ?rs @ appended (test_rate_limiting t) v ?n8\<rparr>,
                 sent_of (test_rate_limiting t (v, ?n8))))"
    using rate_step_sent [of t "v\<lparr>results := ?rs\<rparr>" ?n8] by simp
  have numerals: "n + 1 = Suc n" "n + 2 = Suc (Suc n)" "n + 3 = Suc (Suc (Suc n))"
    "n + 4 = Suc (Suc (Suc (Suc n)))" "n + 5 = Suc (Suc (Suc (Suc (Suc n))))"
    "n + 6 = Suc (Suc (Suc (Suc (Suc (Suc n)))))"
    "n + 7 = Suc (Suc (Suc (Suc (Suc (Suc (Suc n))))))" "n + 8 = ?n8"
    by simp_all
  have "run_all_tests ucd t (v, n) =
     (Inr (list_all passed (?rs @ appended (test_rate_limiting t) v ?n8)),
      (v\<lparr>results := ?rs @ appended (test_rate_limiting t) v ?n8\<rparr>,
       sent_of (test_rate_limiting t (v, ?n8))))"
    using r
    by (simp add: run_all_tests_def bind_def [of "test_graphql_endpoint t"]
          bind_def [of "test_health_endpoint t"] bind_def [of "test_unauthenticated_requests ucd t"]
          bind_def [of "test_demo_mode t"] bind_def [of "test_authorization_bypass_attempts t"]
          bind_def [of "test_rate_limiting t"] bind_def [of get_self]
          graphql_step health_step unauthenticated_loop demo_step bypass_loop
          get_self_def return_def Let_def all_passed_count)
  then show ?thesis
    unfolding run_verdicts_def numerals by simp
qed

lemma appended_last:
  "m (v, n) = (Inr (), (v\<lparr>results := results v @ appended m v n\<rparr>, n')) \<Longrightarrow>
   length (appended m v n) = 1 \<Longrightarrow>
   appended m v n = [last (results_of (m (v, n)))]"
  by (cases "appended m v n") (simp_all add: results_of_def)

lemma run_verdicts_last:
  "run_verdicts ucd t v n =
     [last (results_of (test_graphql_endpoint t (v, n))),
      last (results_of (test_health_endpoint t (v, n + 1))),
      last (results_of (unauthenticated_request ucd t (0, protected_queries ! 0) (v, n + 2))),
      last (results_of (unauthenticated_request ucd t (1, protected_queries ! 1) (v, n + 3))),
      last (results_of (test_demo_mode t (v, n + 4))),
      last (results_of (bypass_attempt t (0, bypass_attempts ! 0) (v, n + 5))),
      last (results_of (bypass_attempt t (1, bypass_attempts ! 1) (v, n + 6))),
      last (results_of (bypass_attempt t (2, bypass_attempts ! 2) (v, n + 7))),
      last (results_of (test_rate_limiting t (v, n + 8)))]"
proof -
  have a: "appended (test_graphql_endpoint t) v k = [last (results_of (test_graphql_endpoint t (v, k)))]" for k
    using graphql_step [of t v k] by (intro appended_last) auto
  have b: "appended (test_health_endpoint t) v k = [last (results_of (test_health_endpoint t (v, k)))]" for k
    using health_step [of t v k] by (intro appended_last) auto
  have c: "appended (unauthenticated_request ucd t iq) v k =
      [last (results_of (unauthenticated_request ucd t iq (v, k)))]" for k iq
    using unauthenticated_step [of ucd t iq v k] by (intro appended_last) auto
  have d: "appended (test_demo_mode t) v k = [last (results_of (test_demo_mode t (v, k)))]" for k
    using demo_step [of t v k] by (intro appended_last) auto
  have e: "appended (bypass_attempt t iq) v k = [last (results_of (bypass_attempt t iq (v, k)))]" for k iq
    using bypass_step [of t iq v k] by (intro appended_last) auto
  have f: "appended (test_rate_limiting t) v k = [last (results_of (test_rate_limiting t (v, k)))]" for k
    using rate_step [of t v k] by (elim exE, intro appended_last) auto
  show ?thesis
    by (simp only: run_verdicts_def a b c d e f append_Cons append_Nil)
qed

subsection \<open>The rate-limit check, with its request count\<close>

lemma rate_answered:
  assumes "\<forall>k<10. \<exists>r. t (n + k) (graphql_request v [(''query'', ''{ health { status } }'')]) = Inr r"
  shows "test_rate_limiting t (v, n) =
     (Inr (),
      (v\<lparr>results := results v @
         [TestResult ''Rate Limiting Active'' True
            (if \<exists>k<10. status_code (projr (t (n + k)
                   (graphql_request v [(''query'', ''{ health { status } }'')]))) = 429
             then ''Rate limiting is active (some requests returned 429)''
             else ''Rate limiting test completed (no 429s - may not be configured)'')
            None]\<rparr>,
       n + 10))"
proof -
  have "\<forall>k<length [0..<10::nat]. \<exists>r. t (n + k) \<lparr>req_url = graphql_url v,
       req_json = [(''query'', ''{ health { status } }'')], req_timeout = timeout v\<rparr> = Inr r"
    using assms by (simp add: graphql_request_def)
  from burst_answered [of "[0..<10]" t n "graphql_url v" "[(''query'', ''{ health { status } }'')]"
      "timeout v" "[]", OF this]
  show ?thesis
    by (auto simp add: test_rate_limiting_def action_defs graphql_request_def Let_def
        list_ex_iff simp del: upt_Suc)
qed

lemma rate_raises:
  assumes "k < 10"
    and "\<forall>j<k. \<exists>r. t (n + j) (graphql_request v [(''query'', ''{ health { status } }'')]) = Inr r"
    and "t (n + k) (graphql_request v [(''query'', ''{ health { status } }'')]) = Inl e"
  shows "test_rate_limiting t (v, n) =
     (Inr (),
      (v\<lparr>results := results v @
         [TestResult ''Rate Limiting Active'' False
            (''Rate limiting test failed: '' @ exc_str e) None]\<rparr>,
       n + k + 1))"
proof -
  have "k < length [0..<10::nat]" using assms(1) by simp
  from burst_raises [OF this, of t n "graphql_url v" "[(''query'', ''{ health { status } }'')]" "timeout v" e "[]"]
    assms(2,3)
  show ?thesis
    by (simp add: test_rate_limiting_def action_defs graphql_request_def Let_def
        del: upt_Suc)
qed

section \<open>The claims\<close>

text \<open>
  C5. Every run appends exactly nine results, one per check and one per element of the two
  query lists (availability, health, two protected queries, demo mode, three bypass
  attempts, rate limit), in this order, whatever the target does with any request.
\<close>

theorem run_all_tests_nine_verdicts:
  "\<exists>rs. results_of (run_all_tests ucd t (v, n)) = results v @ rs \<and> length rs = 9 \<and>
     map name rs =
       [''GraphQL Endpoint Available'', ''Health Endpoint No Auth Required'',
        ''Protected Query 1 Requires Auth'', ''Protected Query 2 Requires Auth'',
        ''Demo Mode Detection'',
        ''Bypass Attempt 1 Blocked'', ''Bypass Attempt 2 Blocked'', ''Bypass Attempt 3 Blocked'',
        ''Rate Limiting Active'']"
proof -
  have "length (map name (run_verdicts ucd t v n)) = 9"
    by (simp only: run_verdicts_names) simp
  then have "length (run_verdicts ucd t v n) = 9" by simp
  then show ?thesis using run_results run_verdicts_names by blast
qed

theorem run_all_tests_nine_verdicts_witness:
  "length (results_of (run_all_tests example_ucd unreachable_target (init ''localhost:8080'' False 10, 0))) = 9"
  using run_all_tests_nine_verdicts [of example_ucd unreachable_target "init ''localhost:8080'' False 10" 0]
  by (auto simp: init_def)

text \<open>
  C8. The run is total over what the requests do: for every target (any status, any body,
  JSON or not, any raised exception) and every starting state, none of the six check
  methods lets an exception out and each sends its requests (one, one, two, one, three,
  and between one and ten for the burst); \<^verbatim>\<open>run_all_tests\<close> returns a boolean; its nine
  results are, in order, the result each check gives at its own request number, whatever
  the checks before it met; and the run sends at least nine and at most eighteen requests.
\<close>

theorem run_all_tests_total:
  "fst (test_graphql_endpoint t (v, n)) = Inr () \<and>
   fst (test_health_endpoint t (v, n)) = Inr () \<and>
   fst (test_unauthenticated_requests ucd t (v, n)) = Inr () \<and>
   fst (test_demo_mode t (v, n)) = Inr () \<and>
   fst (test_authorization_bypass_attempts t (v, n)) = Inr () \<and>
   fst (test_rate_limiting t (v, n)) = Inr () \<and>
   sent_of (test_graphql_endpoint t (v, n)) = n + 1 \<and>
   sent_of (test_health_endpoint t (v, n)) = n + 1 \<and>
   sent_of (test_unauthenticated_requests ucd t (v, n)) = n + 2 \<and>
   sent_of (test_demo_mode t (v, n)) = n + 1 \<and>
   sent_of (test_authorization_bypass_attempts t (v, n)) = n + 3 \<and>
   n < sent_of (test_rate_limiting t (v, n)) \<and>
   sent_of (test_rate_limiting t (v, n)) \<le> n + 10 \<and>
   (\<exists>success. fst (run_all_tests ucd t (v, n)) = Inr success) \<and>
   results_of (run_all_tests ucd t (v, n)) =
     results v @
     [last (results_of (test_graphql_endpoint t (v, n))),
      last (results_of (test_health_endpoint t (v, n + 1))),
      last (results_of (unauthenticated_request ucd t (0, protected_queries ! 0) (v, n + 2))),
      last (results_of (unauthenticated_request ucd t (1, protected_queries ! 1) (v, n + 3))),
      last (results_of (test_demo_mode t (v, n + 4))),
      last (results_of (bypass_attempt t (0, bypass_attempts ! 0) (v, n + 5))),
      last (results_of (bypass_attempt t (1, bypass_attempts ! 1) (v, n + 6))),
      last (results_of (bypass_attempt t (2, bypass_attempts ! 2) (v, n + 7))),
      last (results_of (test_rate_limiting t (v, n + 8)))] \<and>
   map name (results_of (run_all_tests ucd t (v, n))) =
     map name (results v) @
       [''GraphQL Endpoint Available'', ''Health Endpoint No Auth Required'',
        ''Protected Query 1 Requires Auth'', ''Protected Query 2 Requires Auth'',
        ''Demo Mode Detection'',
        ''Bypass Attempt 1 Blocked'', ''Bypass Attempt 2 Blocked'', ''Bypass Attempt 3 Blocked'',
        ''Rate Limiting Active''] \<and>
   sent_of (run_all_tests ucd t (v, n)) = sent_of (test_rate_limiting t (v, n + 8)) \<and>
   n + 9 \<le> sent_of (run_all_tests ucd t (v, n)) \<and>
   sent_of (run_all_tests ucd t (v, n)) \<le> n + 18"
proof -
  have rate: "fst (test_rate_limiting t (v, n)) = Inr ()"
    using rate_step [of t v n] by auto
  have s: "sent_of (run_all_tests ucd t (v, n)) = sent_of (test_rate_limiting t (v, n + 8))"
    by (simp add: run_all_tests_state sent_of_def)
  have b: "n + 8 < sent_of (test_rate_limiting t (v, n + 8))"
    "sent_of (test_rate_limiting t (v, n + 8)) \<le> n + 8 + 10"
    using rate_sent [of "n + 8" t v] by simp_all
  have rs: "results_of (run_all_tests ucd t (v, n)) = results v @ run_verdicts ucd t v n"
    by (rule run_results)
  show ?thesis
    apply (intro conjI)
    subgoal by (simp add: graphql_step)
    subgoal by (simp add: health_step)
    subgoal by (simp add: unauthenticated_loop)
    subgoal by (simp add: demo_step)
    subgoal by (simp add: bypass_loop)
    subgoal by (rule rate)
    subgoal by (simp add: sent_of_def graphql_step)
    subgoal by (simp add: sent_of_def health_step)
    subgoal by (simp add: sent_of_def unauthenticated_loop)
    subgoal by (simp add: sent_of_def demo_step)
    subgoal by (simp add: sent_of_def bypass_loop)
    subgoal using rate_sent [of n t v] by simp
    subgoal using rate_sent [of n t v] by simp
    subgoal by (simp add: run_returns)
    subgoal unfolding rs run_verdicts_last by (rule refl)
    subgoal by (simp add: rs run_verdicts_names)
    subgoal by (rule s)
    subgoal using b unfolding s by simp
    subgoal using b unfolding s by simp
    done
qed

theorem run_all_tests_total_witness:
  "fst (run_all_tests example_ucd html_target (init ''localhost:8080'' False 10, 0)) = Inr False \<and>
   sent_of (run_all_tests example_ucd html_target (init ''localhost:8080'' False 10, 0)) = 18"
proof -
  have "fst (run_all_tests example_ucd html_target (init ''localhost:8080'' False 10, 0)) \<noteq> Inr True"
    by code_simp
  moreover have "sent_of (test_rate_limiting html_target (init ''localhost:8080'' False 10, 0 + 8)) = 18"
    by code_simp
  ultimately show ?thesis
    using run_all_tests_total [of html_target "init ''localhost:8080'' False 10" 0 example_ucd]
    by auto
qed

text \<open>
  C4. For every run: the number of passed results is at most the number of results, the
  boolean returned is true exactly when the two are equal, and the exit status of
  \<^verbatim>\<open>main\<close> is 0 when that boolean is true and 1 otherwise.
\<close>

theorem exit_code_iff_all_passed:
  "sum_list (map (\<lambda>r. 1 :: int) (filter passed (results_of (run_all_tests ucd t (v, n)))))
     \<le> int (length (results_of (run_all_tests ucd t (v, n)))) \<and>
   fst (run_all_tests ucd t (v, n)) =
     Inr (sum_list (map (\<lambda>r. 1 :: int) (filter passed (results_of (run_all_tests ucd t (v, n)))))
          = int (length (results_of (run_all_tests ucd t (v, n))))) \<and>
   main ucd t h ssl tmo = (if fst (run_all_tests ucd t (init h ssl tmo, 0)) = Inr True then 0 else 1)"
proof (intro conjI)
  show "sum_list (map (\<lambda>r. 1 :: int) (filter passed (results_of (run_all_tests ucd t (v, n)))))
     \<le> int (length (results_of (run_all_tests ucd t (v, n))))"
    unfolding passed_count by simp
  show "fst (run_all_tests ucd t (v, n)) =
     Inr (sum_list (map (\<lambda>r. 1 :: int) (filter passed (results_of (run_all_tests ucd t (v, n)))))
          = int (length (results_of (run_all_tests ucd t (v, n)))))"
    unfolding all_passed_count run_results by (rule run_returns)
  have "results (init h ssl tmo) = []" by (simp add: init_def)
  then show "main ucd t h ssl tmo = (if fst (run_all_tests ucd t (init h ssl tmo, 0)) = Inr True then 0 else 1)"
    by (simp add: run_returns main_exit)
qed

theorem exit_code_iff_all_passed_witness:
  "main example_ucd guarded_target ''localhost:8080'' False 10 = 0 \<and>
   main example_ucd demo_down_target ''localhost:8080'' False 10 = 1"
proof -
  have "fst (run_all_tests example_ucd guarded_target (init ''localhost:8080'' False 10, 0)) = Inr True"
    by code_simp
  moreover have "fst (run_all_tests example_ucd demo_down_target (init ''localhost:8080'' False 10, 0)) \<noteq> Inr True"
    by code_simp
  ultimately show ?thesis
    using exit_code_iff_all_passed [of example_ucd guarded_target _ _ "''localhost:8080''" False 10]
      exit_code_iff_all_passed [of example_ucd demo_down_target _ _ "''localhost:8080''" False 10]
    by simp
qed

text \<open>
  C7. For every bypass payload: when the request raises (a timeout or any other exception),
  the result appended for that payload is marked passed, with the text of the exception in
  its message. In a run, the bypass requests are the requests number 5, 6 and 7 and their
  results the results number 5, 6 and 7.
\<close>

theorem bypass_attempt_error_passes:
  "(t n (graphql_request v q) = Inl e \<longrightarrow>
      bypass_attempt t (i, q) (v, n) =
        (Inr (),
         (v\<lparr>results := results v @
              [TestResult (bypass_attempt_name i) True
                 (''Bypass attempt caused error (likely blocked): '' @ exc_str e) None]\<rparr>,
          Suc n))) \<and>
   (k < 3 \<and> t (5 + k) (graphql_request (init h ssl tmo) (bypass_attempts ! k)) = Inl e \<longrightarrow>
      passed (results_of (run_all_tests ucd t (init h ssl tmo, 0)) ! (5 + k)))"
proof (intro conjI impI)
  assume "t n (graphql_request v q) = Inl e"
  then show "bypass_attempt t (i, q) (v, n) =
        (Inr (),
         (v\<lparr>results := results v @
              [TestResult (bypass_attempt_name i) True
                 (''Bypass attempt caused error (likely blocked): '' @ exc_str e) None]\<rparr>,
          Suc n))"
    by (simp add: bypass_step bypass_verdict)
next
  assume a: "k < 3 \<and> t (5 + k) (graphql_request (init h ssl tmo) (bypass_attempts ! k)) = Inl e"
  have r: "results (init h ssl tmo) = []" by (simp add: init_def)
  from a have "k = 0 \<or> k = 1 \<or> k = 2" by auto
  with a show "passed (results_of (run_all_tests ucd t (init h ssl tmo, 0)) ! (5 + k))"
    by (auto simp add: run_results r run_verdicts_def graphql_verdict health_verdict
        unauthenticated_verdict demo_verdict bypass_verdict)
qed

theorem bypass_attempt_error_passes_witness:
  "bypass_attempt unreachable_target (0, bypass_attempts ! 0) (init ''localhost:8080'' False 10, 5) =
     (Inr (),
      ((init ''localhost:8080'' False 10)\<lparr>results :=
           [TestResult ''Bypass Attempt 1 Blocked'' True
              ''Bypass attempt caused error (likely blocked): Connection refused'' None]\<rparr>,
       6)) \<and>
   passed (results_of (run_all_tests example_ucd unreachable_target (init ''localhost:8080'' False 10, 0)) ! 7)"
proof -
  let ?e = "PyException ''ConnectionError'' ''Connection refused''"
  have h: "\<And>n req. unreachable_target n req = Inl ?e"
    by (simp add: unreachable_target_def)
  have r: "results (init ''localhost:8080'' False 10) = []" by (simp add: init_def)
  show ?thesis
    using bypass_attempt_error_passes [of unreachable_target 5 "init ''localhost:8080'' False 10"
        "bypass_attempts ! 0" ?e 0 2 "''localhost:8080''" False 10 example_ucd]
    by (simp add: h r bypass_attempt_names)
qed

text \<open>
  C9. The demo-mode check can fail the run. Its result (the fifth of a run) is passed
  exactly when its request returns status 200; the result is a function of the status
  alone, the body is not read. On any other status and on a raised exception it is marked
  failed, and then \<^verbatim>\<open>run_all_tests\<close> returns false and the exit status is 1.
\<close>

theorem demo_mode_can_fail_run:
  "name (results_of (run_all_tests ucd t (init h ssl tmo, 0)) ! 4) = ''Demo Mode Detection'' \<and>
   passed (results_of (run_all_tests ucd t (init h ssl tmo, 0)) ! 4) =
     (\<exists>response. t 4 (graphql_request (init h ssl tmo) [(''query'', ''{ health { status } }'')])
                    = Inr response \<and> status_code response = 200) \<and>
   (\<forall>response. t 4 (graphql_request (init h ssl tmo) [(''query'', ''{ health { status } }'')])
                    = Inr response \<longrightarrow>
      results_of (run_all_tests ucd t (init h ssl tmo, 0)) ! 4 =
        (if status_code response = 200
         then TestResult ''Demo Mode Detection'' True
                ''Demo mode test completed (check server logs for warnings)'' (Some 200)
         else TestResult ''Demo Mode Detection'' False
                (''Could not test demo mode: status '' @ str_int (status_code response))
                (Some (status_code response)))) \<and>
   (\<forall>e. t 4 (graphql_request (init h ssl tmo) [(''query'', ''{ health { status } }'')]) = Inl e \<longrightarrow>
      results_of (run_all_tests ucd t (init h ssl tmo, 0)) ! 4 =
        TestResult ''Demo Mode Detection'' False (''Demo mode test failed: '' @ exc_str e) None) \<and>
   (\<not> passed (results_of (run_all_tests ucd t (init h ssl tmo, 0)) ! 4) \<longrightarrow>
      fst (run_all_tests ucd t (init h ssl tmo, 0)) = Inr False \<and> main ucd t h ssl tmo = 1)"
proof -
  have r: "results (init h ssl tmo) = []" by (simp add: init_def)
  have rs: "results_of (run_all_tests ucd t (init h ssl tmo, 0)) = run_verdicts ucd t (init h ssl tmo) 0"
    by (simp add: run_results r)
  have d: "run_verdicts ucd t (init h ssl tmo) 0 ! 4 = hd (appended (test_demo_mode t) (init h ssl tmo) 4)"
    using run_verdicts_demo [of ucd t "init h ssl tmo" 0] by simp
  have f: "\<not> passed (run_verdicts ucd t (init h ssl tmo) 0 ! 4) \<Longrightarrow>
      \<not> list_all passed (run_verdicts ucd t (init h ssl tmo) 0)"
    using failed_verdict_fails_run [of 4 ucd t "init h ssl tmo" 0] by (simp add: run_verdicts_length)
  show ?thesis
    unfolding rs
    apply (intro conjI)
    subgoal by (simp add: d demo_verdict split: sum.splits)
    subgoal by (simp add: d demo_verdict split: sum.splits)
    subgoal by (simp add: d demo_verdict)
    subgoal by (simp add: d demo_verdict)
    subgoal using f by (simp add: run_returns r main_exit)
    done
qed

theorem demo_mode_can_fail_run_witness:
  "results_of (run_all_tests example_ucd demo_down_target (init ''localhost:8080'' False 10, 0)) ! 4 =
     TestResult ''Demo Mode Detection'' False ''Could not test demo mode: status 503'' (Some 503) \<and>
   fst (run_all_tests example_ucd demo_down_target (init ''localhost:8080'' False 10, 0)) = Inr False \<and>
   main example_ucd demo_down_target ''localhost:8080'' False 10 = 1"
proof -
  have h: "demo_down_target 4 (graphql_request (init ''localhost:8080'' False 10)
             [(''query'', ''{ health { status } }'')]) = Inr \<lparr>status_code = 503, json = not_json\<rparr>"
    by (simp add: demo_down_target_def)
  have s: "str_int 503 = ''503''" by code_simp
  show ?thesis
    using demo_mode_can_fail_run [of example_ucd demo_down_target "''localhost:8080''" False 10]
    by (simp add: h s)
qed

text \<open>
  C10. A 200 response whose body is a JSON object with an \<^verbatim>\<open>errors\<close> entry that holds an
  empty collection: a bypass attempt answered so is marked passed (only the presence of
  the key is tested), a protected query answered so is marked failed (no element of the
  empty collection mentions authentication).
\<close>

theorem empty_errors_asymmetry:
  "status_code response = 200 \<and> json response = Inr (JObj kvs) \<and>
   map_of kvs (text_of ''errors'') = Some errors \<and> py_iter errors = Inr [] \<longrightarrow>
     (t n (graphql_request v q) = Inr response \<longrightarrow>
        results_of (bypass_attempt t (i, q) (v, n)) =
          results v @ [TestResult (bypass_attempt_name i) True
                         ''Potential bypass attempt properly rejected'' (Some 200)]) \<and>
     (t n' (graphql_request v' q') = Inr response \<longrightarrow>
        results_of (unauthenticated_request ucd t (j, q') (v', n')) =
          results v' @ [TestResult (protected_query_name j) False
                          ''Protected query should require authentication'' (Some 200)])"
  by (auto simp add: results_of_def bypass_step bypass_verdict unauthenticated_step
      unauthenticated_verdict and_then_def dest: errors_key_present)

theorem empty_errors_asymmetry_witness:
  "results_of (bypass_attempt empty_errors_target (0, bypass_attempts ! 0)
                 (init ''localhost:8080'' False 10, 5)) =
     [TestResult ''Bypass Attempt 1 Blocked'' True
        ''Potential bypass attempt properly rejected'' (Some 200)] \<and>
   results_of (unauthenticated_request example_ucd empty_errors_target (0, protected_queries ! 0)
                 (init ''localhost:8080'' False 10, 2)) =
     [TestResult ''Protected Query 1 Requires Auth'' False
        ''Protected query should require authentication'' (Some 200)]"
proof -
  have r: "results (init ''localhost:8080'' False 10) = []" by (simp add: init_def)
  show ?thesis
    using empty_errors_asymmetry [of "\<lparr>status_code = 200, json = Inr (JObj [(text_of ''errors'', JArr [])])\<rparr>"
        "[(text_of ''errors'', JArr [])]" "JArr []" empty_errors_target 5 "init ''localhost:8080'' False 10"
        "bypass_attempts ! 0" 0 2 "init ''localhost:8080'' False 10" "protected_queries ! 0" example_ucd 0]
    by (simp add: empty_errors_target_def r bypass_attempt_names protected_query_names)
qed

text \<open>
  C1, as amended. If every request raises, the six results of the availability, health,
  protected-query (two), demo-mode and rate-limit checks are marked failed and the three
  bypass results are marked passed; every message ends with the text of the exception
  raised by the check's request, no result has a status code, \<^verbatim>\<open>run_all_tests\<close>
  returns false and the exit status is 1.
\<close>

theorem unreachable_target_verdicts:
  assumes "\<And>n req. t n req = Inl (e n req)"
  shows "results_of (run_all_tests ucd t (init h ssl tmo, 0)) =
     [TestResult ''GraphQL Endpoint Available'' False
        (''Failed to connect to GraphQL endpoint: '' @ exc_str (e 0 (graphql_request (init h ssl tmo)
            [(''query'', ''{ __schema { types { name } } }'')]))) None,
      TestResult ''Health Endpoint No Auth Required'' False
        (''Health endpoint test failed: '' @ exc_str (e 1 (graphql_request (init h ssl tmo)
            [(''query'', ''{ health { status version } }'')]))) None,
      TestResult ''Protected Query 1 Requires Auth'' False
        (''Test failed: '' @ exc_str (e 2 (graphql_request (init h ssl tmo) (protected_queries ! 0)))) None,
      TestResult ''Protected Query 2 Requires Auth'' False
        (''Test failed: '' @ exc_str (e 3 (graphql_request (init h ssl tmo) (protected_queries ! 1)))) None,
      TestResult ''Demo Mode Detection'' False
        (''Demo mode test failed: '' @ exc_str (e 4 (graphql_request (init h ssl tmo)
            [(''query'', ''{ health { status } }'')]))) None,
      TestResult ''Bypass Attempt 1 Blocked'' True
        (''Bypass attempt caused error (likely blocked): '' @
           exc_str (e 5 (graphql_request (init h ssl tmo) (bypass_attempts ! 0)))) None,
      TestResult ''Bypass Attempt 2 Blocked'' True
        (''Bypass attempt caused error (likely blocked): '' @
           exc_str (e 6 (graphql_request (init h ssl tmo) (bypass_attempts ! 1)))) None,
      TestResult ''Bypass Attempt 3 Blocked'' True
        (''Bypass attempt caused error (likely blocked): '' @
           exc_str (e 7 (graphql_request (init h ssl tmo) (bypass_attempts ! 2)))) None,
      TestResult ''Rate Limiting Active'' False
        (''Rate limiting test failed: '' @ exc_str (e 8 (graphql_request (init h ssl tmo)
            [(''query'', ''{ health { status } }'')]))) None] \<and>
    fst (run_all_tests ucd t (init h ssl tmo, 0)) = Inr False \<and>
    main ucd t h ssl tmo = 1"
proof -
  have r: "results (init h ssl tmo) = []" by (simp add: init_def)
  have rate: "appended (test_rate_limiting t) (init h ssl tmo) 8 =
     [TestResult ''Rate Limiting Active'' False
        (''Rate limiting test failed: '' @ exc_str (e 8 (graphql_request (init h ssl tmo)
            [(''query'', ''{ health { status } }'')]))) None]"
    using rate_verdict_raises [of 0 t 8 "init h ssl tmo"] assms by simp
  have v: "run_verdicts ucd t (init h ssl tmo) 0 =
     [TestResult ''GraphQL Endpoint Available'' False
        (''Failed to connect to GraphQL endpoint: '' @ exc_str (e 0 (graphql_request (init h ssl tmo)
            [(''query'', ''{ __schema { types { name } } }'')]))) None,
      TestResult ''Health Endpoint No Auth Required'' False
        (''Health endpoint test failed: '' @ exc_str (e 1 (graphql_request (init h ssl tmo)
            [(''query'', ''{ health { status version } }'')]))) None,
      TestResult ''Protected Query 1 Requires Auth'' False
        (''Test failed: '' @ exc_str (e 2 (graphql_request (init h ssl tmo) (protected_queries ! 0)))) None,
      TestResult ''Protected Query 2 Requires Auth'' False
        (''Test failed: '' @ exc_str (e 3 (graphql_request (init h ssl tmo) (protected_queries ! 1)))) None,
      TestResult ''Demo Mode Detection'' False
        (''Demo mode test failed: '' @ exc_str (e 4 (graphql_request (init h ssl tmo)
            [(''query'', ''{ health { status } }'')]))) None,
      TestResult ''Bypass Attempt 1 Blocked'' True
        (''Bypass attempt caused error (likely blocked): '' @
           exc_str (e 5 (graphql_request (init h ssl tmo) (bypass_attempts ! 0)))) None,
      TestResult ''Bypass Attempt 2 Blocked'' True
        (''Bypass attempt caused error (likely blocked): '' @
           exc_str (e 6 (graphql_request (init h ssl tmo) (bypass_attempts ! 1)))) None,
      TestResult ''Bypass Attempt 3 Blocked'' True
        (''Bypass attempt caused error (likely blocked): '' @
           exc_str (e 7 (graphql_request (init h ssl tmo) (bypass_attempts ! 2)))) None,
      TestResult ''Rate Limiting Active'' False
        (''Rate limiting test failed: '' @ exc_str (e 8 (graphql_request (init h ssl tmo)
            [(''query'', ''{ health { status } }'')]))) None]"
    by (simp only: run_verdicts_def add_0 graphql_verdict health_verdict unauthenticated_verdict
        demo_verdict bypass_verdict rate assms protected_query_names bypass_attempt_names
        sum.case append.simps)
  show ?thesis
    by (simp add: run_results run_returns main_exit r v)
qed

theorem unreachable_target_verdicts_witness:
  "map passed (results_of (run_all_tests example_ucd unreachable_target (init ''localhost:8080'' False 10, 0))) =
     [False, False, False, False, False, True, True, True, False] \<and>
   map message (results_of (run_all_tests example_ucd unreachable_target (init ''localhost:8080'' False 10, 0))) =
     [''Failed to connect to GraphQL endpoint: Connection refused'',
      ''Health endpoint test failed: Connection refused'',
      ''Test failed: Connection refused'',
      ''Test failed: Connection refused'',
      ''Demo mode test failed: Connection refused'',
      ''Bypass attempt caused error (likely blocked): Connection refused'',
      ''Bypass attempt caused error (likely blocked): Connection refused'',
      ''Bypass attempt caused error (likely blocked): Connection refused'',
      ''Rate limiting test failed: Connection refused''] \<and>
   main example_ucd unreachable_target ''localhost:8080'' False 10 = 1"
proof -
  have h: "\<And>n req. unreachable_target n req =
      Inl ((\<lambda>n req. PyException ''ConnectionError'' ''Connection refused'') n req)"
    by (simp add: unreachable_target_def)
  show ?thesis
    using unreachable_target_verdicts [of unreachable_target
        "\<lambda>n req. PyException ''ConnectionError'' ''Connection refused''", OF h,
        of example_ucd "''localhost:8080''" False 10]
    by simp
qed

text \<open>
  C1 as stated says all nine results are failed. Against a target that refuses every
  connection the three bypass results are marked passed.
\<close>

theorem unreachable_bypass_verdicts_passed:
  "map passed (results_of (run_all_tests example_ucd unreachable_target (init ''localhost:8080'' False 10, 0))) =
     [False, False, False, False, False, True, True, True, False]"
  by code_simp

text \<open>
  C2, as amended. When every protected query and every bypass payload is answered with
  status 401, the two protected-query results are marked failed with the message
  \<^verbatim>\<open>Unexpected status code: 401\<close>, the three bypass results are marked passed, the
  availability result is passed exactly when its own request returns status 200, the
  health result exactly when its own request returns status 200 with a body that has
  \<^verbatim>\<open>health\<close> inside \<^verbatim>\<open>data\<close>, and \<^verbatim>\<open>run_all_tests\<close> returns false.
\<close>

theorem rejected_with_401_verdicts:
  assumes "\<And>n req. req_json req \<in> set protected_queries \<union> set bypass_attempts \<Longrightarrow>
             \<exists>response. t n req = Inr response \<and> status_code response = 401"
  shows "results_of (run_all_tests ucd t (init h ssl tmo, 0)) ! 2 =
           TestResult ''Protected Query 1 Requires Auth'' False ''Unexpected status code: 401'' (Some 401) \<and>
         results_of (run_all_tests ucd t (init h ssl tmo, 0)) ! 3 =
           TestResult ''Protected Query 2 Requires Auth'' False ''Unexpected status code: 401'' (Some 401) \<and>
         results_of (run_all_tests ucd t (init h ssl tmo, 0)) ! 5 =
           TestResult ''Bypass Attempt 1 Blocked'' True ''Bypass attempt rejected with status 401'' (Some 401) \<and>
         results_of (run_all_tests ucd t (init h ssl tmo, 0)) ! 6 =
           TestResult ''Bypass Attempt 2 Blocked'' True ''Bypass attempt rejected with status 401'' (Some 401) \<and>
         results_of (run_all_tests ucd t (init h ssl tmo, 0)) ! 7 =
           TestResult ''Bypass Attempt 3 Blocked'' True ''Bypass attempt rejected with status 401'' (Some 401) \<and>
         passed (results_of (run_all_tests ucd t (init h ssl tmo, 0)) ! 0) =
           (\<exists>response. t 0 (graphql_request (init h ssl tmo)
                              [(''query'', ''{ __schema { types { name } } }'')]) = Inr response \<and>
                       status_code response = 200) \<and>
         passed (results_of (run_all_tests ucd t (init h ssl tmo, 0)) ! 1) =
           (\<exists>response data inner. t 1 (graphql_request (init h ssl tmo)
                              [(''query'', ''{ health { status version } }'')]) = Inr response \<and>
                       status_code response = 200 \<and> json response = Inr data \<and>
                       py_in ''data'' data = Inr True \<and> py_getitem data ''data'' = Inr inner \<and>
                       py_in ''health'' inner = Inr True) \<and>
         fst (run_all_tests ucd t (init h ssl tmo, 0)) = Inr False"
proof -
  let ?v = "init h ssl tmo"
  have r: "results ?v = []" by (simp add: init_def)
  have q: "\<And>q. req_json (graphql_request ?v q) = q" by (simp add: graphql_request_def)
  have a: "\<exists>response. t n (graphql_request ?v q) = Inr response \<and> status_code response = 401"
    if "q \<in> set protected_queries \<union> set bypass_attempts" for n q
    using assms [of "graphql_request ?v q" n] that unfolding q by blast
  obtain p0 where p0: "t 2 (graphql_request ?v (protected_queries ! 0)) = Inr p0" "status_code p0 = 401"
    using a [of "protected_queries ! 0" 2] protected_queries_mem(1) by blast
  obtain p1 where p1: "t 3 (graphql_request ?v (protected_queries ! 1)) = Inr p1" "status_code p1 = 401"
    using a [of "protected_queries ! 1" 3] protected_queries_mem(2) by blast
  obtain b0 where b0: "t 5 (graphql_request ?v (bypass_attempts ! 0)) = Inr b0" "status_code b0 = 401"
    using a [of "bypass_attempts ! 0" 5] bypass_attempts_mem(1) by blast
  obtain b1 where b1: "t 6 (graphql_request ?v (bypass_attempts ! 1)) = Inr b1" "status_code b1 = 401"
    using a [of "bypass_attempts ! 1" 6] bypass_attempts_mem(2) by blast
  obtain b2 where b2: "t 7 (graphql_request ?v (bypass_attempts ! 2)) = Inr b2" "status_code b2 = 401"
    using a [of "bypass_attempts ! 2" 7] bypass_attempts_mem(3) by blast
  obtain r8 where r8: "appended (test_rate_limiting t) ?v 8 = [r8]"
    using rate_step [of t ?v 8] by (auto simp: length_Suc_conv)
  obtain r0 where r0: "appended (test_graphql_endpoint t) ?v 0 = [r0]"
    using graphql_step [of t ?v 0] by (auto simp: length_Suc_conv)
  obtain r1 where r1: "appended (test_health_endpoint t) ?v 1 = [r1]"
    using health_step [of t ?v 1] by (auto simp: length_Suc_conv)
  obtain r4 where r4: "appended (test_demo_mode t) ?v 4 = [r4]"
    using demo_step [of t ?v 4] by (auto simp: length_Suc_conv)
  have v: "run_verdicts ucd t ?v 0 =
     [r0, r1,
      TestResult ''Protected Query 1 Requires Auth'' False ''Unexpected status code: 401'' (Some 401),
      TestResult ''Protected Query 2 Requires Auth'' False ''Unexpected status code: 401'' (Some 401),
      r4,
      TestResult ''Bypass Attempt 1 Blocked'' True ''Bypass attempt rejected with status 401'' (Some 401),
      TestResult ''Bypass Attempt 2 Blocked'' True ''Bypass attempt rejected with status 401'' (Some 401),
      TestResult ''Bypass Attempt 3 Blocked'' True ''Bypass attempt rejected with status 401'' (Some 401),
      r8]"
    unfolding run_verdicts_from_0 r0 r1 r4 r8 unauthenticated_verdict bypass_verdict
      p0(1) p1(1) b0(1) b1(1) b2(1)
    by (simp add: p0(2) p1(2) b0(2) b1(2) b2(2) str_int_401
        protected_query_names bypass_attempt_names check_names_Suc)
  have g: "passed r0 = (\<exists>response. t 0 (graphql_request ?v
              [(''query'', ''{ __schema { types { name } } }'')]) = Inr response \<and>
              status_code response = 200)"
    using r0 unfolding graphql_verdict by (auto split: sum.splits if_splits)
  have hl: "passed r1 = (\<exists>response data inner. t 1 (graphql_request ?v
                              [(''query'', ''{ health { status version } }'')]) = Inr response \<and>
                       status_code response = 200 \<and> json response = Inr data \<and>
                       py_in ''data'' data = Inr True \<and> py_getitem data ''data'' = Inr inner \<and>
                       py_in ''health'' inner = Inr True)"
    using r1 unfolding health_verdict by (auto simp: and_then_def split: sum.splits if_splits)
  show ?thesis
    by (simp add: run_results run_returns r v g hl)
qed


theorem rejected_with_401_verdicts_witness:
  "results_of (run_all_tests example_ucd rejecting_target (init ''localhost:8080'' False 10, 0)) ! 2 =
     TestResult ''Protected Query 1 Requires Auth'' False ''Unexpected status code: 401'' (Some 401) \<and>
   results_of (run_all_tests example_ucd rejecting_target (init ''localhost:8080'' False 10, 0)) ! 5 =
     TestResult ''Bypass Attempt 1 Blocked'' True ''Bypass attempt rejected with status 401'' (Some 401) \<and>
   fst (run_all_tests example_ucd rejecting_target (init ''localhost:8080'' False 10, 0)) = Inr False"
proof -
  have h: "\<And>n req. req_json req \<in> set protected_queries \<union> set bypass_attempts \<Longrightarrow>
             \<exists>response. rejecting_target n req = Inr response \<and> status_code response = 401"
    by (simp add: rejecting_target_def)
  show ?thesis
    using rejected_with_401_verdicts [of rejecting_target example_ucd "''localhost:8080''" False 10, OF h]
    by simp
qed

text \<open>
  C2 as stated says the two protected-query results are passed. Against a target that
  answers 401 to the protected queries and the bypass payloads and 200 with the health
  payload to everything else, they are the only two results marked failed.
\<close>

theorem rejected_protected_queries_failed:
  "map passed (results_of (run_all_tests example_ucd rejecting_target (init ''localhost:8080'' False 10, 0))) =
     [True, True, False, False, True, True, True, True, True]"
  by code_simp

text \<open>
  C6, as amended. When all ten rapid requests return a response, whatever the statuses,
  the rate-limit result is marked passed, and a 429 among them shows in the message only;
  ten requests have been sent. When one of the ten requests raises (the first one to do
  so being number \<open>k\<close>, counted from 0), the burst stops there, after \<open>k + 1\<close> requests,
  and the result is marked failed with the text of that exception in the message.
\<close>

theorem rate_limit_verdict_by_outcome:
  "((\<forall>k<10. \<exists>response. t (n + k) (graphql_request v [(''query'', ''{ health { status } }'')])
                = Inr response) \<longrightarrow>
      test_rate_limiting t (v, n) =
        (Inr (),
         (v\<lparr>results := results v @
            [TestResult ''Rate Limiting Active'' True
               (if \<exists>k<10. status_code (projr (t (n + k)
                      (graphql_request v [(''query'', ''{ health { status } }'')]))) = 429
                then ''Rate limiting is active (some requests returned 429)''
                else ''Rate limiting test completed (no 429s - may not be configured)'')
               None]\<rparr>,
          n + 10))) \<and>
   (k < 10 \<and>
    (\<forall>j<k. \<exists>response. t (n + j) (graphql_request v [(''query'', ''{ health { status } }'')])
                = Inr response) \<and>
    t (n + k) (graphql_request v [(''query'', ''{ health { status } }'')]) = Inl e \<longrightarrow>
      test_rate_limiting t (v, n) =
        (Inr (),
         (v\<lparr>results := results v @
            [TestResult ''Rate Limiting Active'' False
               (''Rate limiting test failed: '' @ exc_str e) None]\<rparr>,
          n + k + 1)))"
  using rate_answered [of t n v] rate_raises [of k t n v e] by blast

theorem rate_limit_verdict_by_outcome_witness:
  "test_rate_limiting throttling_target (init ''localhost:8080'' False 10, 8) =
     (Inr (),
      ((init ''localhost:8080'' False 10)\<lparr>results :=
         [TestResult ''Rate Limiting Active'' True
            ''Rate limiting is active (some requests returned 429)'' None]\<rparr>,
       18)) \<and>
   test_rate_limiting flaky_target (init ''localhost:8080'' False 10, 8) =
     (Inr (),
      ((init ''localhost:8080'' False 10)\<lparr>results :=
         [TestResult ''Rate Limiting Active'' False
            ''Rate limiting test failed: Read timed out. (read timeout=10.0)'' None]\<rparr>,
       13))"
proof -
  let ?v = "init ''localhost:8080'' False 10"
  let ?req = "graphql_request ?v [(''query'', ''{ health { status } }'')]"
  have r: "results ?v = []" by (simp add: init_def)
  have a: "\<forall>k<10. \<exists>response. throttling_target (8 + k) ?req = Inr response"
    by (simp add: throttling_target_def)
  have "status_code (projr (throttling_target (8 + 2) ?req)) = 429"
    by (simp add: throttling_target_def)
  then have b: "\<exists>k<10. status_code (projr (throttling_target (8 + k) ?req)) = 429"
    by (intro exI [of _ "2::nat"]) simp
  have c: "(4::nat) < 10 \<and> (\<forall>j<4. \<exists>response. flaky_target (8 + j) ?req = Inr response) \<and>
      flaky_target (8 + 4) ?req = Inl (PyException ''ReadTimeout'' ''Read timed out. (read timeout=10.0)'')"
    by (simp add: flaky_target_def)
  show ?thesis
    using rate_limit_verdict_by_outcome [of throttling_target 8 ?v]
      rate_limit_verdict_by_outcome [of flaky_target 8 ?v 4
        "PyException ''ReadTimeout'' ''Read timed out. (read timeout=10.0)''"]
      a b c
    by (simp add: r)
qed

text \<open>
  C6 as stated says the rate-limit result is passed for every sequence of outcomes,
  timeouts included. With a timeout on the fifth rapid request the result is marked failed.
\<close>

theorem rate_limit_verdict_fails_on_timeout:
  "results_of (test_rate_limiting flaky_target (init ''localhost:8080'' False 10, 8)) =
     [TestResult ''Rate Limiting Active'' False
        ''Rate limiting test failed: Read timed out. (read timeout=10.0)'' None]"
  by code_simp

text \<open>
  What a protected query gets when the body of a 200 response cannot be looked into: the
  body is not JSON, or it decodes to a value on which \<^verbatim>\<open>'errors' in data\<close> raises (null,
  a boolean, a number). The handler of the loop appends a failed result with the message
  \<^verbatim>\<open>Test failed:\<close> followed by the text of the exception, and no status code.
\<close>

lemma protected_query_undecodable:
  assumes "t n (graphql_request v q) = Inr response" and "status_code response = 200"
    and "json response = Inl e \<or> (\<exists>data. json response = Inr data \<and> py_in ''errors'' data = Inl e)"
  shows "unauthenticated_request ucd t (i, q) (v, n) =
     (Inr (),
      (v\<lparr>results := results v @
         [TestResult (protected_query_name i) False (''Test failed: '' @ exc_str e) None]\<rparr>,
       Suc n))"
  using assms by (auto simp: unauthenticated_step unauthenticated_verdict and_then_def)



end
